theory Spec2Isabelle
  imports Complex_Main "HOL-Library.Multiset"
begin

section \<open>JavaScript built-ins used by the sources\<close>

text \<open>
  Numbers are modelled by \<open>real\<close> (weights, ratios, random numbers) and \<open>int\<close> (counters,
  millisecond time stamps). A port is the result of \<open>parseInt\<close> and can be \<open>NaN\<close>: it is an
  \<open>int option\<close> with \<open>None\<close> for \<open>NaN\<close>. The rounding of doubles is modelled where a
  comparison of rounded values decides what the code does, in the package \<open>weighted\<close>;
  stored weights, computed weights and ratios are exact values. A character of a string
  is a code unit below 256.
\<close>

type_synonym jsint = "int option"

text \<open>\<open>a !== b\<close> on numbers: \<open>NaN\<close> differs from everything, itself included.\<close>

definition strict_neq :: "jsint \<Rightarrow> jsint \<Rightarrow> bool" where
  "strict_neq a b = (case (a, b) of (Some x, Some y) \<Rightarrow> x \<noteq> y | _ \<Rightarrow> True)"

text \<open>\<open>a == b\<close> on numbers.\<close>

definition loose_eq :: "jsint \<Rightarrow> jsint \<Rightarrow> bool" where
  "loose_eq a b = (case (a, b) of (Some x, Some y) \<Rightarrow> x = y | _ \<Rightarrow> False)"

text \<open>Truthiness of a number: \<open>NaN\<close> and \<open>0\<close> are falsy.\<close>

definition truthy_num :: "jsint \<Rightarrow> bool" where
  "truthy_num a = (case a of None \<Rightarrow> False | Some x \<Rightarrow> x \<noteq> 0)"

text \<open>\<open>xs.indexOf(x)\<close>: the first index holding \<open>x\<close>, or \<open>-1\<close>.\<close>

fun indexOf :: "'a list \<Rightarrow> 'a \<Rightarrow> int" where
  "indexOf [] x = -1"
| "indexOf (y # ys) x = (if y = x then 0 else (let i = indexOf ys x in if i < 0 then -1 else i + 1))"

text \<open>
  \<open>xs.splice(start, 1)\<close>: a negative \<open>start\<close> counts from the end, a \<open>start\<close> beyond the end
  is the end. The result is the array of removed elements and the array as it is left.
\<close>

definition splice1 :: "'a list \<Rightarrow> int \<Rightarrow> 'a list \<times> 'a list" where
  "splice1 xs start =
     (let n = int (length xs);
          k = nat (if start < 0 then max (n + start) 0 else min start n)
      in (take 1 (drop k xs), take k xs @ drop (Suc k) xs))"

text \<open>\<open>s.replace(pat, rep)\<close> with a string pattern: the first occurrence only, wherever it is.\<close>

fun replace :: "string \<Rightarrow> string \<Rightarrow> string \<Rightarrow> string" where
  "replace [] pat rep = (if pat = [] then rep else [])"
| "replace (c # cs) pat rep =
     (if take (length pat) (c # cs) = pat then rep @ drop (length pat) (c # cs)
      else c # replace cs pat rep)"

text \<open>\<open>s.includes(pat)\<close>.\<close>

fun str_includes :: "string \<Rightarrow> string \<Rightarrow> bool" where
  "str_includes [] pat = (pat = [])"
| "str_includes (c # cs) pat = (take (length pat) (c # cs) = pat \<or> str_includes cs pat)"

text \<open>\<open>s.split(sep)\<close> for a one-character separator; the result is never empty.\<close>

fun split :: "string \<Rightarrow> char \<Rightarrow> string list" where
  "split [] sep = [[]]"
| "split (c # cs) sep =
     (if c = sep then [] # split cs sep
      else (case split cs sep of [] \<Rightarrow> [[c]] | t # ts \<Rightarrow> (c # t) # ts))"

text \<open>\<open>xs[i]\<close>, \<open>undefined\<close> out of range.\<close>

definition elem_at :: "'a list \<Rightarrow> nat \<Rightarrow> 'a option" where
  "elem_at xs i = (if i < length xs then Some (xs ! i) else None)"

text \<open>
  \<open>parseInt(s)\<close> without a radix: leading white space is skipped, a sign is read, a \<open>0x\<close>
  prefix selects base 16, and the longest run of digits is converted; no digit gives \<open>NaN\<close>.
  The white space below 256 is the tab, the line feed, the vertical tab, the form feed,
  the carriage return, the space and the no-break space.
\<close>

definition digit_val :: "char \<Rightarrow> nat" where
  "digit_val c =
     (let n = of_char c :: nat
      in if 48 \<le> n \<and> n \<le> 57 then n - 48
         else if 97 \<le> n \<and> n \<le> 102 then n - 87
         else if 65 \<le> n \<and> n \<le> 70 then n - 55
         else 16)"

definition is_space :: "char \<Rightarrow> bool" where
  "is_space c = (of_char c \<in> {9, 10, 11, 12, 13, 32, 160 :: nat})"

definition parse_digits :: "nat \<Rightarrow> string \<Rightarrow> jsint" where
  "parse_digits radix s =
     (let ds = takeWhile (\<lambda>c. digit_val c < radix) s
      in if ds = [] then None
         else Some (int (foldl (\<lambda>acc c. acc * radix + digit_val c) 0 ds)))"

definition parse_unsigned :: "string \<Rightarrow> jsint" where
  "parse_unsigned s =
     (if take 2 s = ''0x'' \<or> take 2 s = ''0X'' then parse_digits 16 (drop 2 s)
      else parse_digits 10 s)"

definition parseInt_str :: "string \<Rightarrow> jsint" where
  "parseInt_str s =
     (case dropWhile is_space s of
        [] \<Rightarrow> None
      | c # cs \<Rightarrow>
          if c = CHR ''-'' then map_option uminus (parse_unsigned cs)
          else if c = CHR ''+'' then parse_unsigned cs
          else parse_unsigned (c # cs))"

text \<open>An argument that is \<open>undefined\<close>, a string or an integral number.\<close>

datatype jsarg = Undefined | Str string | Num int

fun parseInt :: "jsarg \<Rightarrow> jsint" where
  "parseInt Undefined = None"
| "parseInt (Str s) = parseInt_str s"
| "parseInt (Num n) = Some n"

fun truthy :: "jsarg \<Rightarrow> bool" where
  "truthy Undefined = False"
| "truthy (Str s) = (s \<noteq> [])"
| "truthy (Num n) = (n \<noteq> 0)"


section \<open>The address tests of the \<open>ip\<close> package\<close>

text \<open>
  \<open>peer-list.js\<close> calls \<open>ip.isV4Format\<close>, \<open>ip.isV6Format\<close> and \<open>ip.isPrivate\<close> of the npm
  package \<open>ip\<close> (version 1.1), a dependency that is not part of the repository. Each of
  the three is a test of the string against regular expressions; they are written here
  with a small regular-expression matcher. All repetitions in them are bounded.
\<close>

datatype rx = Eps | Sym "char list" | Seq rx rx | Alt rx rx

text \<open>
  \<open>after r ss\<close>: given the strings \<open>ss\<close> still to be read, what is left of them after
  each way of matching \<open>r\<close> at their start.
\<close>

fun after :: "rx \<Rightarrow> string list \<Rightarrow> string list" where
  "after Eps ss = ss"
| "after (Sym cs) ss = remdups (concat (map (\<lambda>s. case s of [] \<Rightarrow> [] | c # t \<Rightarrow> if c \<in> set cs then [t] else []) ss))"
| "after (Seq a b) ss = after b (after a ss)"
| "after (Alt a b) ss = remdups (after a ss @ after b ss)"

text \<open>\<open>r{m,n}\<close>, \<open>r?\<close> and a literal string.\<close>

fun rep :: "nat \<Rightarrow> nat \<Rightarrow> rx \<Rightarrow> rx" where
  "rep 0 0 r = Eps"
| "rep 0 (Suc n) r = Alt (Seq r (rep 0 n r)) Eps"
| "rep (Suc m) 0 r = Sym []"
| "rep (Suc m) (Suc n) r = Seq r (rep m n r)"

definition opt :: "rx \<Rightarrow> rx" where
  "opt r = Alt r Eps"

fun lit :: "string \<Rightarrow> rx" where
  "lit [] = Eps"
| "lit (c # cs) = Seq (Sym [c]) (lit cs)"

text \<open>\<open>/^r$/.test(s)\<close> and \<open>/^r/.test(s)\<close>.\<close>

definition test_whole :: "rx \<Rightarrow> string \<Rightarrow> bool" where
  "test_whole r s = ([] \<in> set (after r [s]))"

definition test_start :: "rx \<Rightarrow> string \<Rightarrow> bool" where
  "test_start r s = (after r [s] \<noteq> [])"

definition digit :: rx where
  "digit = Sym ''0123456789''"

definition hexdigit :: rx where
  "hexdigit = Sym ''0123456789abcdefABCDEF''"

definition octet :: rx where
  "octet = rep 1 3 digit"

text \<open>\<open>/^(\d{1,3}\.){3,3}\d{1,3}$/\<close>\<close>

definition ipv4Regex :: rx where
  "ipv4Regex = Seq (rep 3 3 (Seq octet (Sym ''.''))) octet"

text \<open>\<open>/^(::)?(((\d{1,3}\.){3}(\d{1,3}){1})?([0-9a-f]){0,4}:{0,2}){1,8}(::)?$/i\<close>\<close>

definition ipv6Group :: rx where
  "ipv6Group =
     Seq (opt (Seq (rep 3 3 (Seq octet (Sym ''.''))) (rep 1 1 octet)))
         (Seq (rep 0 4 hexdigit) (rep 0 2 (Sym '':'')))"

definition ipv6Regex :: rx where
  "ipv6Regex = Seq (opt (lit ''::'')) (Seq (rep 1 8 ipv6Group) (opt (lit ''::'')))"

definition isV4Format :: "string \<Rightarrow> bool" where
  "isV4Format s = test_whole ipv4Regex s"

definition isV6Format :: "string \<Rightarrow> bool" where
  "isV6Format s = test_whole ipv6Regex s"

text \<open>The optional prefix \<open>(::f{4}:)?\<close>, case-insensitive.\<close>

definition mapped :: rx where
  "mapped = opt (Seq (lit ''::'') (Seq (rep 4 4 (Sym ''fF'')) (Sym '':'')))"

definition dot_octet :: rx where
  "dot_octet = Seq (Sym ''.'') octet"

text \<open>
  \<open>ip.isPrivate\<close>: the disjunction, in the package's order, of
  \<open>/^(::f{4}:)?10\.([0-9]{1,3})\.([0-9]{1,3})\.([0-9]{1,3})$/i\<close>,
  \<open>/^(::f{4}:)?192\.168\.([0-9]{1,3})\.([0-9]{1,3})$/i\<close>,
  \<open>/^(::f{4}:)?172\.(1[6-9]|2\d|30|31)\.([0-9]{1,3})\.([0-9]{1,3})$/i\<close>,
  \<open>/^(::f{4}:)?127\.([0-9]{1,3})\.([0-9]{1,3})\.([0-9]{1,3})$/i\<close>,
  \<open>/^(::f{4}:)?169\.254\.([0-9]{1,3})\.([0-9]{1,3})$/i\<close>,
  \<open>/^f[cd][0-9a-f]{2}:/i\<close>, \<open>/^fe80:/i\<close>, \<open>/^::1$/\<close> and \<open>/^::$/\<close>.
\<close>

definition isPrivate :: "string \<Rightarrow> bool" where
  "isPrivate addr =
     (test_whole (Seq mapped (Seq (lit ''10'') (rep 3 3 dot_octet))) addr \<or>
      test_whole (Seq mapped (Seq (lit ''192.168'') (rep 2 2 dot_octet))) addr \<or>
      test_whole (Seq mapped (Seq (lit ''172.'')
         (Seq (Alt (Seq (Sym ''1'') (Sym ''6789''))
                (Alt (Seq (Sym ''2'') digit) (Alt (lit ''30'') (lit ''31''))))
              (rep 2 2 dot_octet)))) addr \<or>
      test_whole (Seq mapped (Seq (lit ''127'') (rep 3 3 dot_octet))) addr \<or>
      test_whole (Seq mapped (Seq (lit ''169.254'') (rep 2 2 dot_octet))) addr \<or>
      test_start (Seq (Sym ''fF'') (Seq (Sym ''cdCD'') (Seq (rep 2 2 hexdigit) (Sym '':'')))) addr \<or>
      test_start (Seq (Sym ''fF'') (Seq (Sym ''eE'') (lit ''80:''))) addr \<or>
      test_whole (lit ''::1'') addr \<or>
      test_whole (lit ''::'') addr)"


section \<open>\<open>PeerList.cleanAddress\<close>\<close>

definition cleanAddress :: "string \<Rightarrow> string" where
  "cleanAddress address =
     (if \<not> isV4Format address \<and> \<not> isV6Format address then address
      else if isPrivate address then ''localhost''
      else replace address ''::ffff:'' [])"


section \<open>Peers and the in-memory peer list\<close>

text \<open>
  A \<open>Peer\<close> is an object with a \<open>data\<close> field; the list holds references to such objects
  and updates them in place. A reference is a natural number and \<open>heap\<close> gives the \<open>data\<close> of
  the object behind it. The fields are those \<open>add\<close> and \<open>markConnected\<close> write.
\<close>

type_synonym ref = nat

record peer_data =
  hostname :: string
  ip :: "string option"
  port :: jsint
  TCPPort :: jsint
  UDPPort :: jsint
  isTrusted :: bool
  weight :: real
  dateCreated :: int
  dateLastConnected :: "int option"
  connected_n :: int
  tried :: int

text \<open>A partial \<open>data\<close> object as passed to \<open>update\<close>: the fields that are present.\<close>

record patch =
  p_hostname :: "string option"
  p_ip :: "string option option"
  p_port :: "jsint option"
  p_TCPPort :: "jsint option"
  p_UDPPort :: "jsint option"
  p_isTrusted :: "bool option"
  p_weight :: "real option"
  p_dateCreated :: "int option"
  p_dateLastConnected :: "int option option"
  p_connected_n :: "int option"
  p_tried :: "int option"

definition no_patch :: patch where
  "no_patch = \<lparr>p_hostname = None, p_ip = None, p_port = None, p_TCPPort = None,
     p_UDPPort = None, p_isTrusted = None, p_weight = None, p_dateCreated = None,
     p_dateLastConnected = None, p_connected_n = None, p_tried = None\<rparr>"

definition pick :: "'a option \<Rightarrow> 'a \<Rightarrow> 'a" where
  "pick new old = (case new of None \<Rightarrow> old | Some v \<Rightarrow> v)"

text \<open>\<open>{ ...peer.data, ...data }\<close>\<close>

definition merge :: "peer_data \<Rightarrow> patch \<Rightarrow> peer_data" where
  "merge d p =
     \<lparr>hostname = pick (p_hostname p) (hostname d), ip = pick (p_ip p) (ip d),
      port = pick (p_port p) (port d), TCPPort = pick (p_TCPPort p) (TCPPort d),
      UDPPort = pick (p_UDPPort p) (UDPPort d), isTrusted = pick (p_isTrusted p) (isTrusted d),
      weight = pick (p_weight p) (weight d), dateCreated = pick (p_dateCreated p) (dateCreated d),
      dateLastConnected = pick (p_dateLastConnected p) (dateLastConnected d),
      connected_n = pick (p_connected_n p) (connected_n d), tried = pick (p_tried p) (tried d)\<rparr>"

text \<open>A complete \<open>data\<close> object passed where a partial one is expected.\<close>

definition as_patch :: "peer_data \<Rightarrow> patch" where
  "as_patch d =
     \<lparr>p_hostname = Some (hostname d), p_ip = Some (ip d), p_port = Some (port d),
      p_TCPPort = Some (TCPPort d), p_UDPPort = Some (UDPPort d),
      p_isTrusted = Some (isTrusted d), p_weight = Some (weight d),
      p_dateCreated = Some (dateCreated d), p_dateLastConnected = Some (dateLastConnected d),
      p_connected_n = Some (connected_n d), p_tried = Some (tried d)\<rparr>"

text \<open>
  Modelled from the spec: the constructor of \<open>Peer\<close>; the class is in \<open>peer.js\<close>, which is
  not among the sources. A new peer holds the fields it is given, with \<open>connected = 0\<close>,
  \<open>tried = 0\<close> and no \<open>dateLastConnected\<close> when they are not given. The spec names no
  default for the other fields; \<open>add\<close> and \<open>load\<close> pass them all.
\<close>

definition Peer_new :: "patch \<Rightarrow> peer_data" where
  "Peer_new given =
     merge \<lparr>hostname = [], ip = None, port = None, TCPPort = None, UDPPort = None,
            isTrusted = False, weight = 0, dateCreated = 0, dateLastConnected = None,
            connected_n = 0, tried = 0\<rparr> given"

text \<open>
  Modelled from the spec: \<open>Peer.update(newData, persist)\<close> of \<open>peer.js\<close> "merges fields";
  \<open>PeerList.update\<close> calls it with \<open>persist = false\<close>, so that the callback is not invoked.
\<close>

definition Peer_update :: "peer_data \<Rightarrow> patch \<Rightarrow> peer_data" where
  "Peer_update d newData = merge d newData"

text \<open>Modelled from the spec: \<open>Peer.isTrusted()\<close> of \<open>peer.js\<close> "returns the stored bit".\<close>

definition Peer_isTrusted :: "peer_data \<Rightarrow> bool" where
  "Peer_isTrusted d = isTrusted d"

record peer_list =
  multiPort :: bool
  isMaster :: bool
  loaded :: bool
  peers :: "ref list"
  heap :: "ref \<Rightarrow> peer_data"

definition CONNECTION_WEIGHT_MULTIPLIER :: real where
  "CONNECTION_WEIGHT_MULTIPLIER = 1"

definition MAX_WEIGHT :: real where
  "MAX_WEIGHT = 4000000"

text \<open>\<open>DEFAULT_OPTIONS\<close> of the ledger client, imported as \<open>DEFAULT_IRI_OPTIONS\<close>.\<close>

definition DEFAULT_TCPPort :: int where
  "DEFAULT_TCPPort = 15600"

definition DEFAULT_UDPPort :: int where
  "DEFAULT_UDPPort = 14600"

text \<open>\<open>new Peer(...)\<close> yields an object that is none of those in the list.\<close>

definition new_ref :: "ref list \<Rightarrow> ref" where
  "new_ref rs = Suc (fold max rs 0)"

text \<open>
  \<open>update(peer, data, refreshPeer)\<close>. The write to the document store is not modelled. With
  \<open>refreshPeer\<close> the object is updated with the merged data.
\<close>

definition update :: "peer_list \<Rightarrow> ref \<Rightarrow> patch \<Rightarrow> bool \<Rightarrow> peer_list" where
  "update s peer data refreshPeer =
     (let newData = merge (heap s peer) data
      in if refreshPeer
         then s\<lparr>heap := (heap s)(peer := Peer_update (heap s peer) (as_patch newData))\<rparr>
         else s)"

definition markConnected :: "int \<Rightarrow> peer_list \<Rightarrow> ref \<Rightarrow> bool \<Rightarrow> peer_list" where
  "markConnected now s peer increaseWeight =
     update s peer
       (no_patch\<lparr>p_tried := Some 0,
          p_connected_n := Some (connected_n (heap s peer) + 1),
          p_weight := Some (min (weight (heap s peer) *
             (if increaseWeight then CONNECTION_WEIGHT_MULTIPLIER else 1)) MAX_WEIGHT),
          p_dateLastConnected := Some (Some now)\<rparr>) True"

definition clear :: "peer_list \<Rightarrow> peer_list" where
  "clear s = s\<lparr>peers := []\<rparr>"

text \<open>
  \<open>findByAddress(address, port)\<close>. The resolver \<open>dns\<close> gives the A records of a name, or
  \<open>None\<close> on error. \<open>findWithIP\<close> is the inner function of the source; its argument is \<open>null\<close>
  (here \<open>None\<close>) when nothing was resolved, and the empty string is falsy as well.
\<close>

definition findWithIP :: "peer_list \<Rightarrow> string \<Rightarrow> string \<Rightarrow> jsint \<Rightarrow> string option \<Rightarrow> ref list" where
  "findWithIP s addr address prt ipa =
     (let found = filter (\<lambda>p.
            hostname (heap s p) = addr \<or>
            hostname (heap s p) = address \<or>
            (ipa \<noteq> None \<and> ipa \<noteq> Some [] \<and>
               (Some (hostname (heap s p)) = ipa \<or> ip (heap s p) = ipa))) (peers s)
      in if multiPort s then filter (\<lambda>p. loose_eq (port (heap s p)) prt) found else found)"

definition findByAddress ::
  "(string \<Rightarrow> string list option) \<Rightarrow> peer_list \<Rightarrow> string \<Rightarrow> jsint \<Rightarrow> ref list" where
  "findByAddress dns s address prt =
     (let addr = cleanAddress address
      in if isV6Format addr \<or> isV4Format addr \<or> multiPort s
         then findWithIP s addr address prt (Some addr)
         else findWithIP s addr address prt
                (case dns addr of None \<Rightarrow> None | Some [] \<Rightarrow> None | Some (a # _) \<Rightarrow> Some a))"

text \<open>
  The callback that \<open>add\<close> passes to \<open>then\<close>: \<open>found\<close> is what \<open>findByAddress\<close> resolved to;
  the arguments are the parsed ports. It returns the list and the peer that \<open>add\<close> resolves to.
\<close>

definition add_then ::
  "int \<Rightarrow> peer_list \<Rightarrow> string \<Rightarrow> jsint \<Rightarrow> jsint \<Rightarrow> jsint \<Rightarrow> bool \<Rightarrow> real \<Rightarrow> ref list
     \<Rightarrow> peer_list \<times> ref" where
  "add_then now s hname prt tcp udp trusted w found =
     (let addr = cleanAddress hname
      in case found of
           existing # _ \<Rightarrow>
             if \<not> multiPort s \<and>
                (strict_neq prt (port (heap s existing)) \<or>
                 (truthy_num tcp \<and> strict_neq tcp (TCPPort (heap s existing))) \<or>
                 (truthy_num udp \<and> strict_neq udp (UDPPort (heap s existing))))
             then (update s existing
                     (no_patch\<lparr>p_port := Some prt, p_TCPPort := Some tcp, p_UDPPort := Some udp\<rparr>)
                     True, existing)
             else if weight (heap s existing) < w
             then (update s existing (no_patch\<lparr>p_weight := Some w\<rparr>) True, existing)
             else (s, existing)
         | [] \<Rightarrow>
             (let peerIP = (if isV4Format addr \<or> isV6Format addr then Some addr else None);
                  peer = new_ref (peers s);
                  d = Peer_new (no_patch\<lparr>
                        p_port := Some prt,
                        p_hostname := Some addr,
                        p_ip := Some peerIP,
                        p_TCPPort := Some (if truthy_num tcp then tcp else Some DEFAULT_TCPPort),
                        p_UDPPort := Some (if truthy_num udp then udp else Some DEFAULT_UDPPort),
                        p_isTrusted := Some trusted,
                        p_weight := Some w,
                        p_dateCreated := Some now\<rparr>)
              in (s\<lparr>peers := peers s @ [peer], heap := (heap s)(peer := d)\<rparr>, peer)))"

text \<open>\<open>parseInt(x || d)\<close>, which also covers the default \<open>d\<close> of a parameter left out.\<close>

definition parse_or :: "jsarg \<Rightarrow> int \<Rightarrow> jsint" where
  "parse_or x d = parseInt (if truthy x then x else Num d)"

text \<open>
  The callback of \<open>db.insert\<close>, which runs when the document is stored (the store is taken
  to succeed): \<open>peer.update(doc)\<close> puts the inserted document, the data the peer had when
  it was pushed, over the data it has by then.
\<close>

definition insert_done :: "peer_list \<Rightarrow> ref \<Rightarrow> peer_data \<Rightarrow> peer_list" where
  "insert_done s peer doc = s\<lparr>heap := (heap s)(peer := Peer_update (heap s peer) (as_patch doc))\<rparr>"

text \<open>
  \<open>add(hostname, port, TCPPort, UDPPort, isTrusted, weight)\<close>, awaited, with no other
  handler in between: the ports are parsed, the address is looked up, \<open>add_then\<close> runs
  on the result, and after an insertion the callback of \<open>db.insert\<close> runs.
\<close>

definition add ::
  "(string \<Rightarrow> string list option) \<Rightarrow> int \<Rightarrow> peer_list \<Rightarrow> string \<Rightarrow> jsarg \<Rightarrow> jsarg \<Rightarrow> jsarg
     \<Rightarrow> bool \<Rightarrow> real \<Rightarrow> peer_list \<times> ref" where
  "add dns now s hname prt tcp udp trusted w =
     (let prt' = parseInt prt;
          tcp' = parse_or tcp DEFAULT_TCPPort;
          udp' = parse_or udp DEFAULT_UDPPort;
          found = findByAddress dns s hname prt';
          r = add_then now s hname prt' tcp' udp' trusted w found
      in if found = [] then (insert_done (fst r) (snd r) (heap (fst r) (snd r)), snd r) else r)"

text \<open>
  \<open>load(defaultPeerURLs)\<close>. The documents read from the store become the peers, each a
  new object. \<open>loadDefaults\<close> then starts one \<open>add\<close> per URI, all at once, and \<open>load\<close>
  resolves when all of them have resolved. Their lookups, their \<open>then\<close> callbacks and
  the callbacks of their inserts interleave as the resolver and the store answer. An
  event is either the \<open>then\<close> callback of a URI, with what its lookup resolved to, or the
  insert callback of a peer that was pushed before; the events are listed in the order
  in which they run. The inserts still pending after the last event are completed in
  the order of their insertion.
\<close>

datatype load_event = Looked_up string "ref list" | Inserted ref

definition token :: "string list \<Rightarrow> nat \<Rightarrow> jsarg" where
  "token tokens i = (case elem_at tokens i of None \<Rightarrow> Undefined | Some t \<Rightarrow> Str t)"

definition default_then :: "int \<Rightarrow> peer_list \<Rightarrow> string \<Rightarrow> ref list \<Rightarrow> peer_list \<times> ref" where
  "default_then now s uri found =
     (let tokens = split uri (CHR ''/'');
          hname = (case tokens of [] \<Rightarrow> [] | t # _ \<Rightarrow> t);
          tcp = token tokens 2;
          udp = token tokens 3
      in add_then now s hname (parseInt (token tokens 1))
           (parse_or tcp DEFAULT_TCPPort) (parse_or udp DEFAULT_UDPPort)
           True 1 found)"

fun load_step ::
  "int \<Rightarrow> peer_list \<times> (ref \<times> peer_data) list \<Rightarrow> load_event
     \<Rightarrow> peer_list \<times> (ref \<times> peer_data) list" where
  "load_step now (s, pending) (Looked_up uri found) =
     (let r = default_then now s uri found
      in (fst r, if found = [] then pending @ [(snd r, heap (fst r) (snd r))] else pending))"
| "load_step now (s, pending) (Inserted peer) =
     (case map_of pending peer of
        None \<Rightarrow> (s, pending)
      | Some doc \<Rightarrow> (insert_done s peer doc, filter (\<lambda>p. fst p \<noteq> peer) pending))"

definition load_docs :: "peer_list \<Rightarrow> peer_data list \<Rightarrow> peer_list" where
  "load_docs s docs =
     (let base = new_ref (peers s)
      in s\<lparr>peers := map (\<lambda>i. base + i) [0..<length docs],
            heap := (\<lambda>r. if base \<le> r \<and> r < base + length docs
                          then Peer_new (as_patch (docs ! (r - base)))
                          else heap s r)\<rparr>)"

definition load :: "int \<Rightarrow> peer_list \<Rightarrow> peer_data list \<Rightarrow> load_event list \<Rightarrow> peer_list" where
  "load now s docs events =
     (let run = foldl (load_step now) (load_docs s docs, []) events
      in (foldl (\<lambda>s' p. insert_done s' (fst p) (snd p)) (fst run) (snd run))\<lparr>loaded := True\<rparr>)"

text \<open>The list as the constructor leaves it.\<close>

definition new_list :: "bool \<Rightarrow> bool \<Rightarrow> (ref \<Rightarrow> peer_data) \<Rightarrow> peer_list" where
  "new_list multi master h =
     \<lparr>multiPort = multi, isMaster = master, loaded = False, peers = [], heap = h\<rparr>"


text \<open>
  The operations on a list, each at the time it runs, for speaking about the states a
  list can reach.
\<close>

datatype op =
    Add string jsarg jsarg jsarg bool real
  | Update ref patch bool
  | MarkConnected ref bool
  | Load "peer_data list" "load_event list"
  | Clear

fun apply_op :: "(string \<Rightarrow> string list option) \<Rightarrow> peer_list \<Rightarrow> int \<times> op \<Rightarrow> peer_list" where
  "apply_op dns s (now, Add hname prt tcp udp trusted w) = fst (add dns now s hname prt tcp udp trusted w)"
| "apply_op dns s (now, Update peer data refreshPeer) = update s peer data refreshPeer"
| "apply_op dns s (now, MarkConnected peer increaseWeight) = markConnected now s peer increaseWeight"
| "apply_op dns s (now, Load docs events) = load now s docs events"
| "apply_op dns s (now, Clear) = clear s"

text \<open>The bound of the spec's P1, and the operations whose data respect it.\<close>

definition weight_ok :: "real \<Rightarrow> bool" where
  "weight_ok w = (0 \<le> w \<and> w \<le> MAX_WEIGHT)"

definition weights_ok :: "peer_list \<Rightarrow> bool" where
  "weights_ok s = (\<forall>r \<in> set (peers s). weight_ok (weight (heap s r)))"

text \<open>The same bound during a run of \<open>load\<close>, for the list and the documents of the pending inserts.\<close>

definition pending_ok :: "peer_list \<times> (ref \<times> peer_data) list \<Rightarrow> bool" where
  "pending_ok x = (weights_ok (fst x) \<and> list_all (\<lambda>p. weight_ok (weight (snd p))) (snd x))"

fun op_ok :: "op \<Rightarrow> bool" where
  "op_ok (Add hname prt tcp udp trusted w) = weight_ok w"
| "op_ok (Update peer data refreshPeer) = (case p_weight data of None \<Rightarrow> True | Some w \<Rightarrow> weight_ok w)"
| "op_ok (MarkConnected peer increaseWeight) = True"
| "op_ok (Load docs events) = list_all (\<lambda>d. weight_ok (weight d)) docs"
| "op_ok Clear = True"


section \<open>Weighted sampling\<close>

text \<open>
  Modelled from the spec: \<open>getSecondsPassed\<close> of \<open>tools/utils\<close>, which is not among the
  sources, gives the seconds since a date (\<open>secondsSince(created)\<close>); dates are in
  milliseconds.
\<close>

definition getSecondsPassed :: "int \<Rightarrow> int \<Rightarrow> real" where
  "getSecondsPassed now date = real_of_int (now - date) / 1000"

definition getPeerWeight :: "int \<Rightarrow> peer_list \<Rightarrow> ref \<Rightarrow> real" where
  "getPeerWeight now s peer =
     (if isMaster s
      then (let weightedAge =
                  real_of_int ((case dateLastConnected (heap s peer) of
                                  None \<Rightarrow> dateCreated (heap s peer) | Some t \<Rightarrow> t)
                               - dateCreated (heap s peer)) / 1000
            in max weightedAge 1)
      else (let weightedAge = getSecondsPassed now (dateCreated (heap s peer)) * weight (heap s peer)
            in max weightedAge 1))"

text \<open>
  The package \<open>weighted\<close> computes in doubles, and its comparison \<open>key < 0\<close> decides
  whether it returns or throws. \<open>fl x\<close> is the double nearest to \<open>x\<close>, a tie going to the
  even significand, for a magnitude in the normal range, from \<open>2\<^sup>-\<^sup>1\<^sup>0\<^sup>2\<^sup>2\<close> to below
  \<open>2\<^sup>1\<^sup>0\<^sup>2\<^sup>4\<close>: the magnitude is scaled by a power of two into \<open>[2\<^sup>5\<^sup>2, 2\<^sup>5\<^sup>3)\<close>, rounded to
  an integer and scaled back. Zero stays zero. A magnitude outside the normal range is
  left as it is: subnormal numbers and overflow are not modelled.
\<close>

fun normalise :: "nat \<Rightarrow> real \<Rightarrow> int \<Rightarrow> (real \<times> int) option" where
  "normalise 0 y e = None"
| "normalise (Suc n) y e =
     (if 2 ^ 53 \<le> y then normalise n (y / 2) (e + 1)
      else if y < 2 ^ 52 then normalise n (y * 2) (e - 1)
      else Some (y, e))"

definition round_even :: "real \<Rightarrow> int" where
  "round_even y =
     (let f = \<lfloor>y\<rfloor>
      in if y - of_int f < 1 / 2 then f
         else if 1 / 2 < y - of_int f then f + 1
         else if even f then f else f + 1)"

definition pow2 :: "int \<Rightarrow> real" where
  "pow2 e = (if 0 \<le> e then 2 ^ nat e else 1 / 2 ^ nat (- e))"

definition fl :: "real \<Rightarrow> real" where
  "fl x =
     (if x = 0 then 0
      else case normalise 1200 \<bar>x\<bar> 0 of
             None \<Rightarrow> x
           | Some (y, e) \<Rightarrow>
               if - 1074 \<le> e \<and> e \<le> 971 then sgn x * of_int (round_even y) * pow2 e else x)"

text \<open>
  \<open>weighted(set, weights)\<close> of the npm package \<open>weighted\<close>, a dependency outside the
  repository. The total is \<open>weights.reduce((prev, curr) => prev + curr, 0)\<close>. With \<open>r\<close>
  the value of \<open>Math.random()\<close>, the key \<open>r * total\<close> is reduced by one weight after the
  other, and the first element that makes it negative is returned (the spec's
  cumulative-weight inversion); where no element does, the package throws a
  \<open>RangeError\<close>. It throws a \<open>TypeError\<close> for arrays of different lengths.
\<close>

datatype error = TypeError | RangeError

definition getTotal :: "real list \<Rightarrow> real" where
  "getTotal weights = foldl (\<lambda>prev curr. fl (prev + curr)) 0 weights"

fun select_arr :: "'a list \<Rightarrow> real list \<Rightarrow> real \<Rightarrow> 'a option" where
  "select_arr (x # xs) (w # ws) key =
     (if fl (key - w) < 0 then Some x else select_arr xs ws (fl (key - w)))"
| "select_arr xs ws key = None"

definition weighted :: "real \<Rightarrow> 'a list \<Rightarrow> real list \<Rightarrow> error + 'a" where
  "weighted r xs weights =
     (if length xs \<noteq> length weights then Inl TypeError
      else case select_arr xs weights (fl (r * getTotal weights)) of
             None \<Rightarrow> Inl RangeError
           | Some x \<Rightarrow> Inr x)"

text \<open>
  The variables of \<open>getWeighted\<close> that \<open>getChoice\<close> changes: the working array \<open>peers\<close>
  (here \<open>pool\<close>), \<open>allWeights\<close> and \<open>choices\<close>. A ratio is \<open>None\<close> where the source computes
  with \<open>undefined\<close>.
\<close>

record sampling =
  pool :: "ref list"
  allWeights :: "real list"
  choices :: "(ref \<times> real option) list"

text \<open>
  \<open>rnd k\<close> is the value of the \<open>k\<close>-th call of \<open>Math.random()\<close>, one per choice. When
  \<open>weighted\<close> throws, no variable has been changed.
\<close>

definition getChoice ::
  "int \<Rightarrow> (nat \<Rightarrow> real) \<Rightarrow> peer_list \<Rightarrow> real \<Rightarrow> sampling \<Rightarrow> error + sampling" where
  "getChoice now rnd s weightsMax st =
     (case weighted (rnd (length (choices st))) (pool st) (map (getPeerWeight now s) (pool st)) of
        Inl e \<Rightarrow> Inl e
      | Inr peer \<Rightarrow>
          (let peers1 = snd (splice1 (pool st) (indexOf (pool st) peer));
               spliced = splice1 (allWeights st) (indexOf peers1 peer);
               weightsArray = fst spliced
           in Inr \<lparr>pool = peers1, allWeights = snd spliced,
                   choices = choices st @
                     [(peer, map_option (\<lambda>w. w / weightsMax) (elem_at weightsArray 0))]\<rparr>))"

text \<open>
  The \<open>for\<close> loop, with the number of iterations that are left. An exception leaves the
  loop with the variables as the choices before it have left them.
\<close>

fun for_loop ::
  "int \<Rightarrow> (nat \<Rightarrow> real) \<Rightarrow> peer_list \<Rightarrow> real \<Rightarrow> nat \<Rightarrow> sampling
     \<Rightarrow> (error \<times> sampling) + sampling" where
  "for_loop now rnd s weightsMax 0 st = Inr st"
| "for_loop now rnd s weightsMax (Suc k) st =
     (case getChoice now rnd s weightsMax st of
        Inl e \<Rightarrow> Inl (e, st)
      | Inr st' \<Rightarrow> if length (pool st') < 1 then Inr st' else for_loop now rnd s weightsMax k st')"

text \<open>
  The array passed as \<open>sourcePeers\<close> is an object: it is either the array \<open>this.peers\<close>
  of the list itself (which \<open>all()\<close> returns) or another array, given by its elements.
\<close>

datatype array_arg = ThisPeers | Another "ref list"

text \<open>
  What a call of \<open>getWeighted\<close> leaves when it returns: the returned pairs, the elements
  of the caller's array (when one was passed) and those of the list's own array. The
  working array is the caller's array itself when one is passed, and a copy of the
  list's array otherwise. The elements of \<open>choices\<close> are pairs whose first component is
  an object, so the final \<open>filter\<close> keeps them all.
\<close>

record sampled =
  results :: "(ref \<times> real option) list"
  source_after :: "ref list option"
  peers_after :: "ref list"

text \<open>What it leaves when it throws: the exception and the elements of the two arrays.\<close>

record aborted =
  thrown :: error
  source_left :: "ref list option"
  peers_left :: "ref list"

definition getWeighted ::
  "int \<Rightarrow> (nat \<Rightarrow> real) \<Rightarrow> peer_list \<Rightarrow> int \<Rightarrow> array_arg option \<Rightarrow> aborted + sampled" where
  "getWeighted now rnd s amount sourcePeers =
     (let amount' = (if amount \<noteq> 0 then amount else int (length (peers s)));
          peers0 = (case sourcePeers of
                      Some ThisPeers \<Rightarrow> peers s
                    | Some (Another src) \<Rightarrow> src
                    | None \<Rightarrow> peers s)
      in if peers0 = []
         then Inr \<lparr>results = [], source_after = map_option (\<lambda>a. peers0) sourcePeers,
                  peers_after = peers s\<rparr>
         else
           (let allWeights0 = map (getPeerWeight now s) peers0;
                weightsMax = Max (set allWeights0)
            in case for_loop now rnd s weightsMax (nat amount')
                      \<lparr>pool = peers0, allWeights = allWeights0, choices = []\<rparr> of
                 Inl (e, st) \<Rightarrow>
                   Inl \<lparr>thrown = e,
                        source_left = map_option (\<lambda>a. pool st) sourcePeers,
                        peers_left = (if sourcePeers = Some ThisPeers then pool st else peers s)\<rparr>
               | Inr st \<Rightarrow>
                   Inr \<lparr>results = map (\<lambda>c. (fst c, if Peer_isTrusted (heap s (fst c)) then Some 1 else snd c))
                                    (filter (\<lambda>c. True) (choices st)),
                        source_after = map_option (\<lambda>a. pool st) sourcePeers,
                        peers_after = (if sourcePeers = Some ThisPeers then pool st else peers s)\<rparr>))"







section \<open>The ledger client\<close>

record neighbor =
  address :: string
  connectionType :: string

text \<open>What \<open>api.getNeighbors\<close> calls back with.\<close>

datatype response = Failed | Neighbors "neighbor list"

text \<open>The field \<open>_isStarted\<close> of the source is \<open>isStarted_flag\<close>.\<close>

record iri =
  isStarted_flag :: bool
  isHealthy :: bool
  staticNeighbors :: "string option list"

definition new_iri :: iri where
  "new_iri = \<lparr>isStarted_flag = False, isHealthy = False, staticNeighbors = []\<rparr>"

text \<open>
  \<open>start()\<close> polls \<open>getNeighbors\<close> until it succeeds; the responses are given in order.

  Modelled from the spec: \<open>getIP\<close> of \<open>tools/utils\<close>, which is not among the sources, resolves
  a host to its IP; it is the parameter \<open>getIP\<close>, with \<open>None\<close> for \<open>null\<close>.
\<close>

fun start :: "(string \<Rightarrow> string option) \<Rightarrow> iri \<Rightarrow> response list \<Rightarrow> iri" where
  "start getIP s [] = s"
| "start getIP s (Failed # rs) = start getIP s rs"
| "start getIP s (Neighbors neighbors # rs) =
     (let addresses = map (\<lambda>n. case split (address n) (CHR '':'') of [] \<Rightarrow> [] | t # _ \<Rightarrow> t) neighbors;
          ips = map getIP addresses
      in s\<lparr>isStarted_flag := True, isHealthy := True,
           staticNeighbors := ips @ map Some addresses\<rparr>)"

definition isAvailable :: "iri \<Rightarrow> bool" where
  "isAvailable s = (isStarted_flag s \<and> isHealthy s)"

text \<open>
  \<open>removeAllNeighbors()\<close>: the promise is rejected, or resolved without a call of the
  ledger, or \<open>api.removeNeighbors\<close> is called with a list of URIs.
\<close>

datatype outcome = Rejected | Resolved | RemoveNeighbors "string list"

definition removeAllNeighbors :: "iri \<Rightarrow> response \<Rightarrow> outcome" where
  "removeAllNeighbors s resp =
     (if \<not> isAvailable s then Rejected
      else case resp of
             Failed \<Rightarrow> Resolved
           | Neighbors neighbors \<Rightarrow>
               if neighbors \<noteq> []
               then (let toRemove = filter (\<lambda>n. Some (address n) \<notin> set (staticNeighbors s)) neighbors
                     in RemoveNeighbors (map (\<lambda>n. connectionType n @ ''://'' @ address n) toRemove))
               else Resolved)"



section \<open>Example states\<close>

definition blank :: peer_data where
  "blank = \<lparr>hostname = [], ip = None, port = None, TCPPort = None, UDPPort = None,
     isTrusted = False, weight = 0, dateCreated = 0, dateLastConnected = None,
     connected_n = 0, tried = 0\<rparr>"

text \<open>Two peers, \<open>0\<close> with stored weight 10 and \<open>1\<close> with stored weight 1, both created at time 0.\<close>

definition two_peers :: peer_list where
  "two_peers = \<lparr>multiPort = False, isMaster = False, loaded = True, peers = [0, 1],
     heap = (\<lambda>r. if r = 0 then blank\<lparr>hostname := ''a.example'', weight := 10\<rparr>
                  else blank\<lparr>hostname := ''b.example'', weight := 1\<rparr>)\<rparr>"

text \<open>A neighbor the ledger has at \<open>start()\<close>, and one added later.\<close>

definition static_X :: neighbor where
  "static_X = \<lparr>address = ''10.0.0.5:14600'', connectionType = ''udp''\<rparr>"

definition dyn_Y :: neighbor where
  "dyn_Y = \<lparr>address = ''dyn.example:14600'', connectionType = ''udp''\<rparr>"

text \<open>A resolver that knows no name.\<close>

definition no_dns :: "string \<Rightarrow> string list option" where
  "no_dns name = None"

text \<open>A list without peers, and \<open>Math.random()\<close> giving 0 at every call.\<close>

definition empty_list :: peer_list where
  "empty_list = new_list False False (\<lambda>r. blank)"

definition rnd_zero :: "nat \<Rightarrow> real" where
  "rnd_zero k = 0"





text \<open>The list after \<open>a.example\<close>, port 1, has been added with weight 0.3 at time 5.\<close>

definition one_peer :: peer_list where
  "one_peer = fst (add no_dns 5 empty_list ''a.example'' (Str ''1'') Undefined Undefined False (3 / 10))"

text \<open>A peer is added at time 5 and marked connected at time 6.\<close>

definition example_ops :: "(int \<times> op) list" where
  "example_ops =
     [(5, Add ''a.example'' (Str ''1'') Undefined Undefined False (3 / 10)),
      (6, MarkConnected 1 True)]"


section \<open>Properties of \<open>cleanAddress\<close>\<close>

lemma replace_absent: "\<not> str_includes s pat \<Longrightarrow> replace s pat r = s"
  by (induction s) auto

lemma take_append_long: "n \<le> length xs \<Longrightarrow> take n (xs @ ys) = take n xs"
  by simp

lemma replace_first_occurrence:
  "pat \<noteq> [] \<Longrightarrow> \<not> str_includes (u @ butlast pat) pat \<Longrightarrow> replace (u @ pat @ v) pat r = u @ r @ v"
proof (induction u)
  case Nil
  then show ?case by (cases pat) auto
next
  case (Cons c u)
  have len: "length pat \<le> length ((c # u) @ butlast pat)"
    using Cons.prems(1) by (cases pat) auto
  have "take (length pat) ((c # u) @ butlast pat) \<noteq> pat"
    using Cons.prems(2) by simp
  moreover have "take (length pat) ((c # u) @ pat @ v) = take (length pat) ((c # u) @ butlast pat)"
  proof -
    have "(c # u) @ pat @ v = ((c # u) @ butlast pat) @ (last pat # v)"
      using Cons.prems(1) by (simp add: snoc_eq_iff_butlast)
    then show ?thesis using len by (metis take_append_long)
  qed
  ultimately have ne: "take (length pat) (c # (u @ pat @ v)) \<noteq> pat" by simp
  have "\<not> str_includes (u @ butlast pat) pat" using Cons.prems(2) by simp
  then have "replace (u @ pat @ v) pat r = u @ r @ v" using Cons.IH Cons.prems(1) by blast
  then show ?case using ne by simp
qed

lemma localhost_fixed: "cleanAddress ''localhost'' = ''localhost''"
  by code_simp

text \<open>
  What \<open>cleanAddress\<close> does in each case: a string that is neither in v4 nor in v6 format
  is returned unchanged, a private-range literal becomes \<open>localhost\<close>, and from any other
  literal the first occurrence of \<open>::ffff:\<close> is removed (the leading prefix for \<open>u = []\<close>);
  a literal without \<open>::ffff:\<close> is unchanged. The two examples of the spec hold.
\<close>

lemma cleanAddress_cases:
  "(\<not> isV4Format a \<and> \<not> isV6Format a \<longrightarrow> cleanAddress a = a) \<and>
   ((isV4Format a \<or> isV6Format a) \<and> isPrivate a \<longrightarrow> cleanAddress a = ''localhost'') \<and>
   ((isV4Format a \<or> isV6Format a) \<and> \<not> isPrivate a \<and> a = u @ ''::ffff:'' @ v \<and>
      \<not> str_includes (u @ ''::ffff'') ''::ffff:'' \<longrightarrow> cleanAddress a = u @ v) \<and>
   ((isV4Format a \<or> isV6Format a) \<and> \<not> isPrivate a \<and> \<not> str_includes a ''::ffff:''
      \<longrightarrow> cleanAddress a = a) \<and>
   cleanAddress ''::ffff:10.0.0.1'' = ''localhost'' \<and>
   cleanAddress ''example.com'' = ''example.com''"
proof (intro conjI impI)
  show "cleanAddress ''::ffff:10.0.0.1'' = ''localhost''" by code_simp
  show "cleanAddress ''example.com'' = ''example.com''" by code_simp
next
  assume "\<not> isV4Format a \<and> \<not> isV6Format a"
  then show "cleanAddress a = a" by (simp add: cleanAddress_def)
next
  assume "(isV4Format a \<or> isV6Format a) \<and> isPrivate a"
  then show "cleanAddress a = ''localhost''" by (auto simp: cleanAddress_def)
next
  assume h: "(isV4Format a \<or> isV6Format a) \<and> \<not> isPrivate a \<and> a = u @ ''::ffff:'' @ v \<and>
      \<not> str_includes (u @ ''::ffff'') ''::ffff:''"
  then have "\<not> str_includes (u @ butlast ''::ffff:'') ''::ffff:''" by simp
  then have "replace (u @ ''::ffff:'' @ v) ''::ffff:'' [] = u @ [] @ v"
    by (intro replace_first_occurrence) simp_all
  then show "cleanAddress a = u @ v" using h by (auto simp: cleanAddress_def)
next
  assume h: "(isV4Format a \<or> isV6Format a) \<and> \<not> isPrivate a \<and> \<not> str_includes a ''::ffff:''"
  then show "cleanAddress a = a" by (auto simp: cleanAddress_def replace_absent)
qed

text \<open>
  C8 says that a literal is mapped by stripping a leading \<open>::ffff:\<close> and by rewriting
  private ranges. \<open>1::ffff:0.0.0.1\<close> is a v6 literal outside the private ranges that does
  not start with \<open>::ffff:\<close>, so it should stay as it is; \<open>cleanAddress\<close> removes the
  \<open>::ffff:\<close> inside it and returns the different address \<open>10.0.0.1\<close>.
\<close>

theorem cleanAddress_removes_inner_prefix:
  "isV6Format ''1::ffff:0.0.0.1'' \<and> \<not> isPrivate ''1::ffff:0.0.0.1'' \<and>
   take 7 ''1::ffff:0.0.0.1'' \<noteq> ''::ffff:'' \<and>
   cleanAddress ''1::ffff:0.0.0.1'' = ''10.0.0.1''"
  by code_simp

text \<open>
  C9 (amended). \<open>cleanAddress (cleanAddress x) = cleanAddress x\<close> for every \<open>x\<close> that is not
  a v4/v6 literal, or is a private-range literal, or does not contain \<open>::ffff:\<close>, or starts
  with \<open>::ffff:\<close> and, with that prefix stripped, is not a private-range literal and
  contains no \<open>::ffff:\<close>.
\<close>

theorem cleanAddress_idempotent_if:
  assumes "\<not> (isV4Format x \<or> isV6Format x) \<or> isPrivate x \<or> \<not> str_includes x ''::ffff:'' \<or>
    (\<exists>t. x = ''::ffff:'' @ t \<and>
       (\<not> (isV4Format t \<or> isV6Format t) \<or> (\<not> isPrivate t \<and> \<not> str_includes t ''::ffff:'')))"
  shows "cleanAddress (cleanAddress x) = cleanAddress x"
proof (cases "isV4Format x \<or> isV6Format x")
  case False
  then show ?thesis by (simp add: cleanAddress_def)
next
  case lit: True
  show ?thesis
  proof (cases "isPrivate x")
    case True
    then have "cleanAddress x = ''localhost''" using lit by (auto simp: cleanAddress_def)
    then show ?thesis using localhost_fixed by simp
  next
    case False
    have cx: "cleanAddress x = replace x ''::ffff:'' []"
      using lit False by (auto simp: cleanAddress_def)
    show ?thesis
    proof (cases "str_includes x ''::ffff:''")
      case False
      then have "cleanAddress x = x" using cx by (simp add: replace_absent)
      then show ?thesis by simp
    next
      case True
      then obtain t where t: "x = ''::ffff:'' @ t"
        and ok: "\<not> (isV4Format t \<or> isV6Format t) \<or> (\<not> isPrivate t \<and> \<not> str_includes t ''::ffff:'')"
        using assms lit \<open>\<not> isPrivate x\<close> by blast
      have "cleanAddress x = t" using cx t by simp
      moreover have "cleanAddress t = t"
        using ok by (auto simp: cleanAddress_def replace_absent)
      ultimately show ?thesis by simp
    qed
  qed
qed

text \<open>C9 (amended) at the mapped address \<open>::ffff:8.8.8.8\<close>.\<close>

theorem cleanAddress_idempotent_if_witness:
  "cleanAddress (cleanAddress ''::ffff:8.8.8.8'') = cleanAddress ''::ffff:8.8.8.8'' \<and>
   cleanAddress ''::ffff:8.8.8.8'' = ''8.8.8.8''"
proof -
  have "''::ffff:8.8.8.8'' = ''::ffff:'' @ ''8.8.8.8'' \<and>
       (\<not> (isV4Format ''8.8.8.8'' \<or> isV6Format ''8.8.8.8'') \<or>
        (\<not> isPrivate ''8.8.8.8'' \<and> \<not> str_includes ''8.8.8.8'' ''::ffff:''))"
    by code_simp
  then have h: "\<not> (isV4Format ''::ffff:8.8.8.8'' \<or> isV6Format ''::ffff:8.8.8.8'') \<or>
    isPrivate ''::ffff:8.8.8.8'' \<or> \<not> str_includes ''::ffff:8.8.8.8'' ''::ffff:'' \<or>
    (\<exists>t. ''::ffff:8.8.8.8'' = ''::ffff:'' @ t \<and>
       (\<not> (isV4Format t \<or> isV6Format t) \<or> (\<not> isPrivate t \<and> \<not> str_includes t ''::ffff:'')))"
    by blast
  have "cleanAddress ''::ffff:8.8.8.8'' = ''8.8.8.8''" by code_simp
  then show ?thesis using cleanAddress_idempotent_if [OF h] by simp
qed

text \<open>
  C9 as stated fails at \<open>::ffff:fe80:1\<close>: the private-range test is made before the prefix
  is stripped, so the first pass gives \<open>fe80:1\<close>, which the second pass finds private and
  rewrites to \<open>localhost\<close>.
\<close>

theorem cleanAddress_not_idempotent_counterexample:
  "cleanAddress ''::ffff:fe80:1'' = ''fe80:1'' \<and>
   cleanAddress (cleanAddress ''::ffff:fe80:1'') = ''localhost'' \<and>
   cleanAddress (cleanAddress ''::ffff:fe80:1'') \<noteq> cleanAddress ''::ffff:fe80:1''"
  by code_simp

section \<open>Properties of peers\<close>

lemma Peer_update_full [simp]: "Peer_update d (as_patch d') = d'"
  by (simp add: Peer_update_def as_patch_def merge_def pick_def)

lemma Peer_new_full [simp]: "Peer_new (as_patch d) = d"
  by (simp add: Peer_new_def as_patch_def merge_def pick_def)

lemma Peer_new_added [simp]:
  "Peer_new (no_patch\<lparr>p_port := Some a, p_hostname := Some b, p_ip := Some c, p_TCPPort := Some d,
       p_UDPPort := Some e, p_isTrusted := Some f, p_weight := Some g, p_dateCreated := Some h\<rparr>)
     = \<lparr>hostname = b, ip = c, port = a, TCPPort = d, UDPPort = e, isTrusted = f, weight = g,
        dateCreated = h, dateLastConnected = None, connected_n = 0, tried = 0\<rparr>"
  by (simp add: Peer_new_def no_patch_def merge_def pick_def)

lemma insert_done_same: "insert_done s p (heap s p) = s"
  by (simp add: insert_done_def)

lemma add_unfold:
  "add dns now s hname prt tcp udp trusted w =
     add_then now s hname (parseInt prt) (parse_or tcp DEFAULT_TCPPort) (parse_or udp DEFAULT_UDPPort)
       trusted w (findByAddress dns s hname (parseInt prt))"
  by (simp add: add_def Let_def insert_done_same)

section \<open>Properties of the ledger client\<close>

text \<open>
  C1 says that the URIs passed to \<open>removeNeighbors\<close> are exactly the neighbors that were
  not recorded at \<open>start()\<close>. The ledger reports \<open>10.0.0.5:14600\<close> at \<open>start()\<close>, which
  records the host \<open>10.0.0.5\<close> (as resolved IP and as address, the port split off). When
  the ledger later reports that neighbor and \<open>dyn.example:14600\<close>, \<open>removeAllNeighbors\<close>
  compares the full \<open>host:port\<close> address with the recorded hosts, finds no static
  neighbor, and the payload holds both URIs.
\<close>

theorem removeAllNeighbors_sends_static:
  "staticNeighbors (start Some new_iri [Neighbors [static_X]]) = [Some ''10.0.0.5'', Some ''10.0.0.5''] \<and>
   removeAllNeighbors (start Some new_iri [Neighbors [static_X]]) (Neighbors [static_X, dyn_Y])
     = RemoveNeighbors [''udp://10.0.0.5:14600'', ''udp://dyn.example:14600'']"
  by (simp add: removeAllNeighbors_def isAvailable_def new_iri_def static_X_def dyn_Y_def)

section \<open>Properties of the weighted sampling\<close>

subsection \<open>Rounding and selection\<close>

lemma normalise_range: "normalise n y e = Some (y', e') \<Longrightarrow> 2 ^ 52 \<le> y' \<and> y' < 2 ^ 53"
  by (induction n y e rule: normalise.induct) (auto split: if_splits)

lemma round_even_ge: "\<lfloor>y\<rfloor> \<le> round_even y"
  by (simp add: round_even_def Let_def)

lemma pow2_pos: "0 < pow2 e"
  by (simp add: pow2_def)

lemma fl_zero: "fl 0 = 0"
  by (simp add: fl_def)

lemma fl_neg:
  assumes "x < 0"
  shows "fl x < 0"
proof (cases "normalise 1200 \<bar>x\<bar> 0")
  case None
  then show ?thesis using assms by (simp add: fl_def)
next
  case (Some r)
  obtain y e where r: "r = (y, e)" by (cases r)
  have "2 ^ 52 \<le> y" using normalise_range Some r by blast
  then have "(2 ^ 52 :: int) \<le> \<lfloor>y\<rfloor>" by (simp add: le_floor_iff)
  moreover have "(0::int) < 2 ^ 52" by simp
  ultimately have "0 < round_even y" using round_even_ge [of y] by linarith
  then have "0 < real_of_int (round_even y) * pow2 e" using pow2_pos [of e] by simp
  then have "- 1 * (real_of_int (round_even y) * pow2 e) < 0" by linarith
  then show ?thesis using assms Some r by (simp add: fl_def)
qed


lemma select_arr_mem: "select_arr xs ws key = Some x \<Longrightarrow> x \<in> set xs"
  by (induction xs ws key rule: select_arr.induct) (auto split: if_splits)

lemma weighted_mem: "weighted r xs ws = Inr x \<Longrightarrow> x \<in> set xs"
  by (auto simp: weighted_def select_arr_mem split: if_splits option.splits)


lemma weighted_zero: "length xs = length ws \<Longrightarrow> 0 < w \<Longrightarrow> weighted 0 (x # xs) (w # ws) = Inr x"
  by (simp add: weighted_def fl_zero fl_neg)


subsection \<open>The choice of one peer\<close>

lemma getPeerWeight_ge_1: "1 \<le> getPeerWeight now s p"
  by (simp add: getPeerWeight_def Let_def)

lemma indexOf_nonneg_iff: "0 \<le> indexOf xs x \<longleftrightarrow> x \<in> set xs"
  by (induction xs) (auto simp: Let_def)

lemma indexOf_ge: "- 1 \<le> indexOf xs x"
  by (induction xs) (auto simp: Let_def)

lemma indexOf_absent: "x \<notin> set xs \<Longrightarrow> indexOf xs x = - 1"
  by (induction xs) (auto simp: Let_def)

lemma splice1_indexOf: "x \<in> set xs \<Longrightarrow> snd (splice1 xs (indexOf xs x)) = remove1 x xs"
proof (induction xs)
  case Nil
  then show ?case by simp
next
  case (Cons y ys)
  show ?case
  proof (cases "y = x")
    case True
    then show ?thesis by (simp add: splice1_def)
  next
    case False
    then have mem: "x \<in> set ys" using Cons.prems by simp
    then have nn: "0 \<le> indexOf ys x" by (simp add: indexOf_nonneg_iff)
    have IH: "snd (splice1 ys (indexOf ys x)) = remove1 x ys" using Cons.IH mem by simp
    have "nat (min (indexOf ys x + 1) (1 + int (length ys))) = Suc (nat (min (indexOf ys x) (int (length ys))))"
      using nn by (simp add: min_def nat_add_distrib)
    then show ?thesis using False nn IH
      by (simp add: splice1_def Let_def)
  qed
qed

lemma splice1_last: "xs \<noteq> [] \<Longrightarrow> splice1 xs (- 1) = ([last xs], butlast xs)"
proof -
  assume ne: "xs \<noteq> []"
  define k where "k = length xs - 1"
  have k: "nat (max (int (length xs) + - 1) 0) = k"
    using ne by (cases xs) (auto simp: k_def)
  have d: "drop k xs = [last xs]"
    unfolding k_def using ne by (metis append_butlast_last_id append_eq_conv_conj length_butlast)
  have t: "take k xs = butlast xs" unfolding k_def by (simp add: butlast_conv_take)
  have "Suc k = length xs" using ne by (cases xs) (auto simp: k_def)
  then have e: "drop (Suc k) xs = []" by simp
  have "splice1 xs (- 1) = (take 1 (drop k xs), take k xs @ drop (Suc k) xs)"
    unfolding splice1_def Let_def using k by simp
  then show ?thesis by (simp only: d t e) simp
qed




lemma getChoice_head:
  assumes "rnd (length cs) = 0"
  shows "getChoice now rnd s m \<lparr>pool = p # ps, allWeights = ws, choices = cs\<rparr> =
     Inr \<lparr>pool = ps, allWeights = snd (splice1 ws (indexOf ps p)),
          choices = cs @ [(p, map_option (\<lambda>w. w / m) (elem_at (fst (splice1 ws (indexOf ps p))) 0))]\<rparr>"
proof -
  have "0 < getPeerWeight now s p" using getPeerWeight_ge_1 [of now s p] by linarith
  then have "weighted 0 (p # ps) (getPeerWeight now s p # map (getPeerWeight now s) ps) = Inr p"
    by (intro weighted_zero) simp_all
  then show ?thesis using assms by (simp add: getChoice_def Let_def splice1_def)
qed

lemma two_peers_weights:
  "getPeerWeight 1000 two_peers 0 = 10" "getPeerWeight 1000 two_peers 1 = 1"
  "getPeerWeight 1000 two_peers (Suc 0) = 1"
  by (simp_all add: getPeerWeight_def getSecondsPassed_def two_peers_def blank_def)

lemma two_peers_fields:
  "peers two_peers = [0, 1]" "\<not> Peer_isTrusted (heap two_peers r)"
  by (simp_all add: two_peers_def blank_def Peer_isTrusted_def)

lemmas sampling_eval =
  getWeighted_def Let_def two_peers_weights two_peers_fields getChoice_head rnd_zero_def
  splice1_def elem_at_def numeral_2_eq_2 numeral_3_eq_3






text \<open>
  C2 says that each returned peer carries its own weight divided by the maximum. With
  the peers \<open>0\<close> (weight 10) and \<open>1\<close> (weight 1) and the first random number 0, peer \<open>0\<close>
  is chosen first and is returned with the ratio \<open>1/10\<close>, the weight of peer \<open>1\<close> over
  the maximum; peer \<open>1\<close> is returned with ratio \<open>1\<close>. Their own ratios are \<open>1\<close> and
  \<open>1/10\<close>. Neither peer is trusted.
\<close>

theorem getWeighted_ratio_of_other_peer:
  "getWeighted 1000 rnd_zero two_peers 2 None =
     Inr \<lparr>results = [(0, Some (1 / 10)), (1, Some 1)], source_after = None, peers_after = [0, 1]\<rparr> \<and>
   getPeerWeight 1000 two_peers 0 / Max (set (map (getPeerWeight 1000 two_peers) (peers two_peers))) = 1 \<and>
   getPeerWeight 1000 two_peers 1 / Max (set (map (getPeerWeight 1000 two_peers) (peers two_peers))) = 1 / 10"
  by (simp add: sampling_eval)

text \<open>
  The cause: in a pool of distinct peers the chosen peer is no longer in \<open>peers\<close> when
  \<open>allWeights\<close> is spliced, \<open>indexOf\<close> gives \<open>-1\<close>, and the last weight is removed and used.
\<close>

lemma getChoice_takes_last_weight:
  assumes "getChoice now rnd s m st = Inr st'" and "distinct (pool st)" and "allWeights st \<noteq> []"
  shows "snd (last (choices st')) = Some (last (allWeights st) / m) \<and>
         allWeights st' = butlast (allWeights st)"
proof -
  obtain p where w: "weighted (rnd (length (choices st))) (pool st)
      (map (getPeerWeight now s) (pool st)) = Inr p"
    using assms(1) by (auto simp: getChoice_def split: sum.splits)
  then have mem: "p \<in> set (pool st)" by (rule weighted_mem)
  have rem: "snd (splice1 (pool st) (indexOf (pool st) p)) = remove1 p (pool st)"
    by (rule splice1_indexOf [OF mem])
  have "p \<notin> set (remove1 p (pool st))" using assms(2) by simp
  then have idx: "indexOf (remove1 p (pool st)) p = - 1" by (rule indexOf_absent)
  have sp: "splice1 (allWeights st) (- 1) = ([last (allWeights st)], butlast (allWeights st))"
    by (rule splice1_last [OF assms(3)])
  show ?thesis using assms(1) w
    by (auto simp: getChoice_def Let_def rem idx sp elem_at_def)
qed

subsection \<open>The loop\<close>


















subsection \<open>The result\<close>




lemma fold_max_ge: "\<forall>r \<in> set rs. r \<le> fold max rs (m::nat)"
proof (induction rs arbitrary: m)
  case Nil
  then show ?case by simp
next
  case (Cons a rs)
  have "m \<le> fold max rs m" for m :: nat
    by (induction rs arbitrary: m) (auto intro: order_trans [OF max.cobounded2])
  then have "a \<le> fold max rs (max a m)" by (meson max.cobounded1 order_trans)
  then show ?case using Cons.IH by simp
qed

lemma new_ref_fresh: "new_ref rs \<notin> set rs"
  using fold_max_ge [of rs 0] by (auto simp: new_ref_def)

lemma add_then_distinct:
  "distinct (peers s) \<Longrightarrow> distinct (peers (fst (add_then now s hname prt tcp udp trusted w found)))"
  using new_ref_fresh [of "peers s"]
  by (cases found) (auto simp: add_then_def Let_def update_def)

lemma peers_insert_done: "peers (insert_done s p doc) = peers s"
  by (simp add: insert_done_def)

lemma load_step_distinct:
  "distinct (peers (fst x)) \<Longrightarrow> distinct (peers (fst (load_step now x ev)))"
proof (cases x)
  case (Pair s pending)
  assume d: "distinct (peers (fst x))"
  show ?thesis
  proof (cases ev)
    case (Looked_up uri found)
    then show ?thesis using Pair d
      by (simp add: Let_def default_then_def add_then_distinct)
  next
    case (Inserted peer)
    then show ?thesis using Pair d
      by (cases "map_of pending peer") (simp_all add: peers_insert_done)
  qed
qed

lemma load_steps_distinct:
  "distinct (peers (fst x)) \<Longrightarrow> distinct (peers (fst (foldl (load_step now) x events)))"
  by (induction events arbitrary: x) (simp_all add: load_step_distinct)

lemma peers_flush: "peers (foldl (\<lambda>s' p. insert_done s' (fst p) (snd p)) s pending) = peers s"
  by (induction pending arbitrary: s) (simp_all add: peers_insert_done)

lemma apply_op_distinct:
  assumes "distinct (peers s)"
  shows "distinct (peers (apply_op dns s x))"
proof (cases x)
  case (Pair now o')
  show ?thesis
  proof (cases o')
    case (Add hname prt tcp udp trusted w)
    then show ?thesis using assms Pair by (simp add: add_unfold add_then_distinct)
  next
    case (Update peer data refreshPeer)
    then show ?thesis using assms Pair by (simp add: update_def Let_def)
  next
    case (MarkConnected peer increaseWeight)
    then show ?thesis using assms Pair by (simp add: markConnected_def update_def Let_def)
  next
    case (Load docs events)
    have "distinct (peers (load_docs s docs))"
      by (simp add: load_docs_def Let_def distinct_map inj_on_def)
    then have "distinct (peers (fst (foldl (load_step now) (load_docs s docs, []) events)))"
      using load_steps_distinct [of "(load_docs s docs, [])"] by simp
    then show ?thesis using Load Pair by (simp add: load_def Let_def peers_flush)
  next
    case Clear
    then show ?thesis using Pair by (simp add: clear_def)
  qed
qed

lemma reachable_peers_distinct:
  "distinct (peers (foldl (apply_op dns) (new_list multi master h) ops))"
proof -
  have "distinct (peers s) \<Longrightarrow> distinct (peers (foldl (apply_op dns) s ops))" for s
    by (induction ops arbitrary: s) (simp_all add: apply_op_distinct)
  then show ?thesis by (simp add: new_list_def)
qed







section \<open>Properties of the peer list\<close>

subsection \<open>The bound on weights\<close>

lemma weight_merge_ports [simp]:
  "weight (merge d (no_patch\<lparr>p_port := a, p_TCPPort := b, p_UDPPort := c\<rparr>)) = weight d"
  by (simp add: merge_def no_patch_def pick_def)

lemma weight_merge_weight [simp]:
  "weight (merge d (no_patch\<lparr>p_weight := Some w\<rparr>)) = w"
  by (simp add: merge_def no_patch_def pick_def)

lemma weight_merge: "weight (merge d p) = pick (p_weight p) (weight d)"
  by (simp add: merge_def)

lemma add_then_weights_ok:
  assumes "weights_ok s" and "weight_ok w"
  shows "weights_ok (fst (add_then now s hname prt tcp udp trusted w found))"
proof (cases found)
  case Nil
  then show ?thesis using assms new_ref_fresh [of "peers s"]
    by (auto simp: add_then_def weights_ok_def Let_def)
next
  case (Cons e rest)
  then show ?thesis using assms
    by (auto simp: add_then_def weights_ok_def update_def Let_def)
qed

lemma update_weights_ok:
  assumes "weights_ok s" and "case p_weight data of None \<Rightarrow> True | Some w \<Rightarrow> weight_ok w"
  shows "weights_ok (update s peer data refreshPeer)"
  using assms
  by (auto simp: weights_ok_def update_def Let_def weight_merge pick_def split: option.splits)

lemma markConnected_weights_ok:
  assumes "weights_ok s"
  shows "weights_ok (markConnected now s peer increaseWeight)"
  using assms
  by (auto simp: weights_ok_def markConnected_def update_def Let_def weight_merge pick_def
      CONNECTION_WEIGHT_MULTIPLIER_def weight_ok_def min_def)

lemma load_docs_weights_ok:
  assumes "list_all (\<lambda>d. weight_ok (weight d)) docs"
  shows "weights_ok (load_docs s docs)"
  using assms
  by (auto simp: weights_ok_def load_docs_def Let_def list_all_length)

lemma weight_ok_1: "weight_ok 1"
  by (simp add: weight_ok_def MAX_WEIGHT_def)

lemma insert_done_weights_ok:
  assumes "weights_ok s" and "weight_ok (weight doc)"
  shows "weights_ok (insert_done s p doc)"
  using assms by (auto simp: weights_ok_def insert_done_def)

lemma default_then_weights_ok: "weights_ok s \<Longrightarrow> weights_ok (fst (default_then now s uri found))"
  unfolding default_then_def Let_def
  by (rule add_then_weights_ok [OF _ weight_ok_1])

lemma default_then_inserted_weight:
  "weight (heap (fst (default_then now s uri [])) (snd (default_then now s uri []))) = 1"
  by (simp add: default_then_def add_then_def Let_def)

lemma load_step_ok:
  assumes "pending_ok x"
  shows "pending_ok (load_step now x ev)"
proof (cases x)
  case (Pair s pending)
  then have s: "weights_ok s" and p: "list_all (\<lambda>p. weight_ok (weight (snd p))) pending"
    using assms by (simp_all add: pending_ok_def)
  show ?thesis
  proof (cases ev)
    case (Looked_up uri found)
    have "weights_ok (fst (default_then now s uri found))"
      using s by (rule default_then_weights_ok)
    moreover have "found = [] \<Longrightarrow>
        weight_ok (weight (heap (fst (default_then now s uri found)) (snd (default_then now s uri found))))"
      using default_then_inserted_weight weight_ok_1 by simp
    ultimately show ?thesis using Pair Looked_up p
      by (simp add: pending_ok_def Let_def)
  next
    case (Inserted peer)
    show ?thesis
    proof (cases "map_of pending peer")
      case None
      then show ?thesis using Pair Inserted s p by (simp add: pending_ok_def)
    next
      case (Some doc)
      then have "(peer, doc) \<in> set pending" by (rule map_of_SomeD)
      then have "weight_ok (weight doc)" using p by (auto simp: list_all_iff)
      then have "weights_ok (insert_done s peer doc)"
        using s by (intro insert_done_weights_ok)
      moreover have "list_all (\<lambda>p. weight_ok (weight (snd p))) (filter (\<lambda>p. fst p \<noteq> peer) pending)"
        using p by (auto simp: list_all_iff)
      ultimately show ?thesis using Pair Inserted Some by (simp add: pending_ok_def)
    qed
  qed
qed

lemma load_steps_ok: "pending_ok x \<Longrightarrow> pending_ok (foldl (load_step now) x events)"
  by (induction events arbitrary: x) (simp_all add: load_step_ok)

lemma flush_weights_ok:
  "weights_ok s \<Longrightarrow> list_all (\<lambda>p. weight_ok (weight (snd p))) pending \<Longrightarrow>
     weights_ok (foldl (\<lambda>s' p. insert_done s' (fst p) (snd p)) s pending)"
  by (induction pending arbitrary: s) (simp_all add: insert_done_weights_ok)

lemma load_weights_ok:
  assumes "list_all (\<lambda>d. weight_ok (weight d)) docs"
  shows "weights_ok (load now s docs events)"
proof -
  have "pending_ok (load_docs s docs, [])"
    using load_docs_weights_ok [OF assms] by (simp add: pending_ok_def)
  then have "pending_ok (foldl (load_step now) (load_docs s docs, []) events)"
    by (rule load_steps_ok)
  then have "weights_ok (foldl (\<lambda>s' p. insert_done s' (fst p) (snd p))
      (fst (foldl (load_step now) (load_docs s docs, []) events))
      (snd (foldl (load_step now) (load_docs s docs, []) events)))"
    unfolding pending_ok_def by (intro flush_weights_ok) simp_all
  then show ?thesis by (simp add: load_def Let_def weights_ok_def)
qed

lemma apply_op_weights_ok:
  assumes "weights_ok s" and "op_ok (snd x)"
  shows "weights_ok (apply_op dns s x)"
proof (cases x)
  case (Pair now o')
  show ?thesis
  proof (cases o')
    case (Add hname prt tcp udp trusted w)
    then show ?thesis using assms Pair
      by (simp add: add_unfold add_then_weights_ok)
  next
    case (Update peer data refreshPeer)
    then show ?thesis using assms Pair by (simp add: update_weights_ok)
  next
    case (MarkConnected peer increaseWeight)
    then show ?thesis using assms Pair by (simp add: markConnected_weights_ok)
  next
    case (Load docs events)
    then show ?thesis using assms Pair by (simp add: load_weights_ok)
  next
    case Clear
    then show ?thesis using Pair by (simp add: clear_def weights_ok_def)
  qed
qed

text \<open>
  C4 (amended). A new list satisfies the bound \<open>0 \<le> weight \<le> MAX_WEIGHT\<close> for all its
  peers, and any sequence of operations preserves it, provided that the weight given to
  \<open>add\<close>, a weight written by \<open>update\<close> and the weights of the documents read by \<open>load\<close>
  are within the bound. \<open>markConnected\<close>, \<open>clear\<close> and the defaults of \<open>load\<close> (weight 1)
  need no condition. The lookup results of the defaults and the moments at which their
  documents are inserted are arbitrary, so the statement holds for every interleaving of
  \<open>loadDefaults\<close>.
\<close>

theorem weights_stay_in_range:
  "weights_ok (new_list multi master h) \<and>
   (weights_ok s \<and> (\<forall>x \<in> set ops. op_ok (snd x)) \<longrightarrow> weights_ok (foldl (apply_op dns) s ops))"
proof
  show "weights_ok (new_list multi master h)" by (simp add: weights_ok_def new_list_def)
  show "weights_ok s \<and> (\<forall>x \<in> set ops. op_ok (snd x)) \<longrightarrow> weights_ok (foldl (apply_op dns) s ops)"
  proof (induction ops arbitrary: s)
    case Nil
    then show ?case by simp
  next
    case (Cons x ops)
    show ?case
    proof
      assume a: "weights_ok s \<and> (\<forall>y \<in> set (x # ops). op_ok (snd y))"
      then have "weights_ok (apply_op dns s x)" by (simp add: apply_op_weights_ok)
      then have "weights_ok (foldl (apply_op dns) (apply_op dns s x) ops)"
        using Cons.IH a by simp
      then show "weights_ok (foldl (apply_op dns) s (x # ops))" by simp
    qed
  qed
qed

text \<open>C4 (amended) for an \<open>add\<close> with weight 0.3 followed by \<open>markConnected\<close>.\<close>

theorem weights_stay_in_range_witness:
  "weights_ok empty_list \<and> list_all (\<lambda>x. op_ok (snd x)) example_ops \<and>
   weights_ok (foldl (apply_op no_dns) empty_list example_ops) \<and>
   peers (foldl (apply_op no_dns) empty_list example_ops) = [1] \<and>
   weight (heap (foldl (apply_op no_dns) empty_list example_ops) 1) = 3 / 10"
proof -
  have a: "weights_ok empty_list" by (simp add: weights_ok_def empty_list_def new_list_def)
  have b: "\<forall>x \<in> set example_ops. op_ok (snd x)"
    by (simp add: example_ops_def weight_ok_def MAX_WEIGHT_def)
  have c: "peers (foldl (apply_op no_dns) empty_list example_ops) = [1] \<and>
      weight (heap (foldl (apply_op no_dns) empty_list example_ops) 1) = 3 / 10"
    by code_simp
  have d: "weights_ok (foldl (apply_op no_dns) empty_list example_ops)"
    using a b weights_stay_in_range [of False False "\<lambda>r. blank" empty_list example_ops no_dns]
    by blast
  have e: "list_all (\<lambda>x. op_ok (snd x)) example_ops" using b by (simp only: list_all_iff)
  show ?thesis using a c d e by blast
qed

text \<open>
  C4 as stated fails: no operation enforces the lower bound, and after an \<open>add\<close> with
  weight \<open>-1\<close> the list holds a peer whose weight is below 0.
\<close>

theorem add_weight_out_of_range_counterexample:
  "weights_ok empty_list \<and>
   \<not> weights_ok (fst (add no_dns 5 empty_list ''a.example'' (Str ''1'') Undefined Undefined False (- 1)))"
  by code_simp

subsection \<open>Adding a peer\<close>

lemma same_fields_merge_weight [simp]:
  "hostname (merge d (no_patch\<lparr>p_weight := Some w\<rparr>)) = hostname d"
  "ip (merge d (no_patch\<lparr>p_weight := Some w\<rparr>)) = ip d"
  "port (merge d (no_patch\<lparr>p_weight := Some w\<rparr>)) = port d"
  by (simp_all add: merge_def no_patch_def pick_def)

lemma merge_ports:
  "merge d (no_patch\<lparr>p_port := Some a, p_TCPPort := Some b, p_UDPPort := Some c\<rparr>)
     = d\<lparr>port := a, TCPPort := b, UDPPort := c\<rparr>"
  by (simp add: merge_def no_patch_def pick_def)

lemma findWithIP_reweighted:
  "findWithIP (update s e (no_patch\<lparr>p_weight := Some w\<rparr>) True) addr adr prt ipa
     = findWithIP s addr adr prt ipa"
proof -
  have h: "hostname (heap (update s e (no_patch\<lparr>p_weight := Some w\<rparr>) True) p) = hostname (heap s p)
    \<and> ip (heap (update s e (no_patch\<lparr>p_weight := Some w\<rparr>) True) p) = ip (heap s p)
    \<and> port (heap (update s e (no_patch\<lparr>p_weight := Some w\<rparr>) True) p) = port (heap s p)" for p
    by (simp add: update_def Let_def)
  have "peers (update s e (no_patch\<lparr>p_weight := Some w\<rparr>) True) = peers s"
    and "multiPort (update s e (no_patch\<lparr>p_weight := Some w\<rparr>) True) = multiPort s"
    by (simp_all add: update_def Let_def)
  then show ?thesis unfolding findWithIP_def by (simp only: h)
qed

lemma findByAddress_reweighted:
  "findByAddress dns (update s e (no_patch\<lparr>p_weight := Some w\<rparr>) True  ) adr prt
     = findByAddress dns s adr prt"
proof -
  have "multiPort (update s e (no_patch\<lparr>p_weight := Some w\<rparr>) True) = multiPort s"
    by (simp add: update_def Let_def)
  then show ?thesis unfolding findByAddress_def by (simp only: findWithIP_reweighted)
qed

lemma findWithIP_inserted:
  assumes "\<not> multiPort s" and "findWithIP s addr adr prt ipa = []"
    and "r \<notin> set (peers s)" and "hostname d = addr"
  shows "findWithIP (s\<lparr>peers := peers s @ [r], heap := (heap s)(r := d)\<rparr>) addr adr prt' ipa = [r]"
proof -
  let ?P = "\<lambda>h p. hostname (h p) = addr \<or> hostname (h p) = adr \<or>
      (ipa \<noteq> None \<and> ipa \<noteq> Some [] \<and> (Some (hostname (h p)) = ipa \<or> ip (h p) = ipa))"
  have old: "filter (?P (heap s)) (peers s) = []"
    using assms(1,2) by (simp add: findWithIP_def)
  have "filter (?P ((heap s)(r := d))) (peers s) = filter (?P (heap s)) (peers s)"
    using assms(3) by (intro filter_cong) auto
  then have "filter (?P ((heap s)(r := d))) (peers s @ [r]) = [r]"
    using old assms(4) by simp
  then show ?thesis using assms(1) by (simp add: findWithIP_def)
qed

lemma findByAddress_inserted:
  assumes "\<not> multiPort s" and "findByAddress dns s hname prt = []"
    and "r \<notin> set (peers s)" and "hostname d = cleanAddress hname"
  shows "findByAddress dns (s\<lparr>peers := peers s @ [r], heap := (heap s)(r := d)\<rparr>) hname prt' = [r]"
  using assms
  by (auto simp: findByAddress_def Let_def findWithIP_inserted split: if_splits)

lemma loose_eq_NaN: "loose_eq a None = False"
  by (simp add: loose_eq_def split: option.splits)

lemma findByAddress_NaN_multiPort: "multiPort s \<Longrightarrow> findByAddress dns s hname None = []"
  by (simp add: findByAddress_def findWithIP_def loose_eq_NaN Let_def)

lemma add_then_inserts:
  "add_then now s hname prt tcp udp trusted w [] =
     (s\<lparr>peers := peers s @ [new_ref (peers s)],
        heap := (heap s)(new_ref (peers s) :=
          \<lparr>hostname = cleanAddress hname,
           ip = (if isV4Format (cleanAddress hname) \<or> isV6Format (cleanAddress hname)
                 then Some (cleanAddress hname) else None),
           port = prt,
           TCPPort = (if truthy_num tcp then tcp else Some DEFAULT_TCPPort),
           UDPPort = (if truthy_num udp then udp else Some DEFAULT_UDPPort),
           isTrusted = trusted, weight = w, dateCreated = now,
           dateLastConnected = None, connected_n = 0, tried = 0\<rparr>)\<rparr>, new_ref (peers s))"
  by (simp add: add_then_def Let_def)

text \<open>
  C5 (amended). \<open>add\<close> does not reject a port that does not parse: the port is \<open>NaN\<close> and
  \<open>add\<close> goes on. Under \<open>multiPort\<close> no stored port equals \<open>NaN\<close>, so nothing matches. If
  no peer matches the address, a new peer with port \<open>NaN\<close> is appended and the peers
  already in the list keep their data. If a peer matches and \<open>multiPort\<close> is off, the
  list keeps its members, and the first match gets the port \<open>NaN\<close> and the parsed
  \<open>TCPPort\<close> and \<open>UDPPort\<close>; no other peer changes.
\<close>

theorem add_unparseable_port:
  assumes "parseInt prt = None"
  shows "(multiPort s \<longrightarrow> findByAddress dns s hname None = []) \<and>
    (findByAddress dns s hname None = [] \<longrightarrow>
       peers (fst (add dns now s hname prt tcp udp trusted w)) = peers s @ [new_ref (peers s)] \<and>
       port (heap (fst (add dns now s hname prt tcp udp trusted w)) (new_ref (peers s))) = None \<and>
       (\<forall>r \<in> set (peers s). heap (fst (add dns now s hname prt tcp udp trusted w)) r = heap s r)) \<and>
    (\<forall>e rest. \<not> multiPort s \<and> findByAddress dns s hname None = e # rest \<longrightarrow>
       peers (fst (add dns now s hname prt tcp udp trusted w)) = peers s \<and>
       heap (fst (add dns now s hname prt tcp udp trusted w)) =
         (heap s)(e := (heap s e)\<lparr>port := None,
                                  TCPPort := parse_or tcp DEFAULT_TCPPort,
                                  UDPPort := parse_or udp DEFAULT_UDPPort\<rparr>))"
proof (intro conjI impI allI)
  show "multiPort s \<Longrightarrow> findByAddress dns s hname None = []"
    by (rule findByAddress_NaN_multiPort)
next
  assume "findByAddress dns s hname None = []"
  then have eq: "add dns now s hname prt tcp udp trusted w =
      add_then now s hname None (parse_or tcp DEFAULT_TCPPort) (parse_or udp DEFAULT_UDPPort) trusted w []"
    using assms by (simp add: add_unfold)
  show "peers (fst (add dns now s hname prt tcp udp trusted w)) = peers s @ [new_ref (peers s)]"
    by (simp add: eq add_then_inserts)
  show "port (heap (fst (add dns now s hname prt tcp udp trusted w)) (new_ref (peers s))) = None"
    by (simp add: eq add_then_inserts)
  show "\<forall>r \<in> set (peers s). heap (fst (add dns now s hname prt tcp udp trusted w)) r = heap s r"
    using new_ref_fresh [of "peers s"] by (auto simp: eq add_then_inserts)
next
  fix e rest
  assume a: "\<not> multiPort s \<and> findByAddress dns s hname None = e # rest"
  then have eq: "add dns now s hname prt tcp udp trusted w =
      add_then now s hname None (parse_or tcp DEFAULT_TCPPort) (parse_or udp DEFAULT_UDPPort) trusted w (e # rest)"
    using assms by (simp add: add_unfold)
  have "fst (add dns now s hname prt tcp udp trusted w) =
      update s e (no_patch\<lparr>p_port := Some None, p_TCPPort := Some (parse_or tcp DEFAULT_TCPPort),
         p_UDPPort := Some (parse_or udp DEFAULT_UDPPort)\<rparr>) True"
    using a by (simp add: eq add_then_def strict_neq_def)
  then show "peers (fst (add dns now s hname prt tcp udp trusted w)) = peers s"
    and "heap (fst (add dns now s hname prt tcp udp trusted w)) =
         (heap s)(e := (heap s e)\<lparr>port := None,
                                  TCPPort := parse_or tcp DEFAULT_TCPPort,
                                  UDPPort := parse_or udp DEFAULT_UDPPort\<rparr>)"
    by (simp_all add: update_def Let_def merge_ports)
qed

text \<open>C5 (amended) for the port \<open>abc\<close>, on the empty list and on a list that knows the host.\<close>

theorem add_unparseable_port_witness:
  "parseInt (Str ''abc'') = None \<and>
   findByAddress no_dns empty_list ''a.example'' None = [] \<and>
   peers (fst (add no_dns 5 empty_list ''a.example'' (Str ''abc'') Undefined Undefined False 0))
     = peers empty_list @ [new_ref (peers empty_list)] \<and>
   \<not> multiPort two_peers \<and>
   findByAddress no_dns two_peers ''a.example'' None = [0] \<and>
   heap (fst (add no_dns 5 two_peers ''a.example'' (Str ''abc'') Undefined Undefined False 0)) =
     (heap two_peers)(0 := (heap two_peers 0)\<lparr>port := None,
        TCPPort := parse_or Undefined DEFAULT_TCPPort, UDPPort := parse_or Undefined DEFAULT_UDPPort\<rparr>)"
proof -
  have h: "parseInt (Str ''abc'') = None" by code_simp
  have a: "findByAddress no_dns empty_list ''a.example'' None = []" by code_simp
  have b: "\<not> multiPort two_peers" by (simp add: two_peers_def)
  have c: "findByAddress no_dns two_peers ''a.example'' None = [0]" by code_simp
  note t1 = add_unparseable_port [OF h, of empty_list no_dns "''a.example''" 5 Undefined Undefined False 0]
  note t2 = add_unparseable_port [OF h, of two_peers no_dns "''a.example''" 5 Undefined Undefined False 0]
  have 1: "peers (fst (add no_dns 5 empty_list ''a.example'' (Str ''abc'') Undefined Undefined False 0))
     = peers empty_list @ [new_ref (peers empty_list)]"
    using t1 a by blast
  have 2: "heap (fst (add no_dns 5 two_peers ''a.example'' (Str ''abc'') Undefined Undefined False 0)) =
     (heap two_peers)(0 := (heap two_peers 0)\<lparr>port := None,
        TCPPort := parse_or Undefined DEFAULT_TCPPort, UDPPort := parse_or Undefined DEFAULT_UDPPort\<rparr>)"
    using t2 b c by blast
  show ?thesis using h a b c 1 2 by blast
qed

text \<open>
  C5 as stated fails: \<open>add\<close> with the port \<open>abc\<close> on the empty list inserts a peer, whose
  port is \<open>NaN\<close>.
\<close>

theorem add_unparseable_port_counterexample:
  "parseInt (Str ''abc'') = None \<and> peers empty_list = [] \<and>
   peers (fst (add no_dns 5 empty_list ''a.example'' (Str ''abc'') Undefined Undefined False 0)) = [1] \<and>
   port (heap (fst (add no_dns 5 empty_list ''a.example'' (Str ''abc'') Undefined Undefined False 0)) 1) = None"
  by code_simp

lemma add_same_ports:
  assumes "\<not> multiPort s" and "findByAddress dns s hname (parseInt prt) = e # rest"
    and "\<not> strict_neq (parseInt prt) (port (heap s e))"
    and "\<not> (truthy_num (parse_or tcp DEFAULT_TCPPort) \<and>
            strict_neq (parse_or tcp DEFAULT_TCPPort) (TCPPort (heap s e)))"
    and "\<not> (truthy_num (parse_or udp DEFAULT_UDPPort) \<and>
            strict_neq (parse_or udp DEFAULT_UDPPort) (UDPPort (heap s e)))"
    and "weight (heap s e) < w"
  shows "add dns now s hname prt tcp udp trusted w =
           (update s e (no_patch\<lparr>p_weight := Some w\<rparr>) True, e)"
  using assms by (auto simp: add_unfold add_then_def Let_def)

lemma weight_after_update: "weight (heap (update s e (no_patch\<lparr>p_weight := Some w\<rparr>) True) e) = w"
  by (simp add: update_def Let_def)

lemma peers_after_update: "peers (update s e p b) = peers s"
  by (simp add: update_def Let_def)

lemma add_twice:
  assumes "\<not> multiPort s" and "findByAddress dns s hname (parseInt prt) = []"
    and "parseInt prt \<noteq> None" and "w1 < w2"
  shows "peers (fst (add dns t2 (fst (add dns t1 s hname prt tcp udp tr1 w1)) hname prt tcp udp tr2 w2))
           = peers s @ [new_ref (peers s)]"
    and "weight (heap (fst (add dns t2 (fst (add dns t1 s hname prt tcp udp tr1 w1)) hname prt tcp udp tr2 w2))
           (new_ref (peers s))) = w2"
    and "findByAddress dns (fst (add dns t2 (fst (add dns t1 s hname prt tcp udp tr1 w1)) hname prt tcp udp tr2 w2))
           hname (parseInt prt) = [new_ref (peers s)]"
proof -
  define r where "r = new_ref (peers s)"
  define d where "d = \<lparr>hostname = cleanAddress hname,
           ip = (if isV4Format (cleanAddress hname) \<or> isV6Format (cleanAddress hname)
                 then Some (cleanAddress hname) else None),
           port = parseInt prt,
           TCPPort = (if truthy_num (parse_or tcp DEFAULT_TCPPort) then parse_or tcp DEFAULT_TCPPort else Some DEFAULT_TCPPort),
           UDPPort = (if truthy_num (parse_or udp DEFAULT_UDPPort) then parse_or udp DEFAULT_UDPPort else Some DEFAULT_UDPPort),
           isTrusted = tr1, weight = w1, dateCreated = t1,
           dateLastConnected = None, connected_n = 0, tried = 0\<rparr>"
  define s1 where "s1 = s\<lparr>peers := peers s @ [r], heap := (heap s)(r := d)\<rparr>"
  have first: "fst (add dns t1 s hname prt tcp udp tr1 w1) = s1"
    using assms(2) by (simp add: add_unfold add_then_inserts s1_def r_def d_def)
  have fresh: "r \<notin> set (peers s)" unfolding r_def by (rule new_ref_fresh)
  have hd: "hostname d = cleanAddress hname" by (simp add: d_def)
  have found: "findByAddress dns s1 hname (parseInt prt) = [r]"
    unfolding s1_def by (rule findByAddress_inserted [OF assms(1,2) fresh hd])
  have mp: "\<not> multiPort s1" using assms(1) by (simp add: s1_def)
  have dr: "heap s1 r = d" by (simp add: s1_def)
  obtain n where n: "parseInt prt = Some n" using assms(3) by auto
  have p1: "\<not> strict_neq (parseInt prt) (port (heap s1 r))"
    by (simp add: dr d_def n strict_neq_def)
  have p2: "\<not> (truthy_num (parse_or tcp DEFAULT_TCPPort) \<and>
            strict_neq (parse_or tcp DEFAULT_TCPPort) (TCPPort (heap s1 r)))"
    by (auto simp: dr d_def strict_neq_def truthy_num_def split: option.splits)
  have p3: "\<not> (truthy_num (parse_or udp DEFAULT_UDPPort) \<and>
            strict_neq (parse_or udp DEFAULT_UDPPort) (UDPPort (heap s1 r)))"
    by (auto simp: dr d_def strict_neq_def truthy_num_def split: option.splits)
  have lt: "weight (heap s1 r) < w2" using assms(4) by (simp add: dr d_def)
  have second: "add dns t2 s1 hname prt tcp udp tr2 w2 = (update s1 r (no_patch\<lparr>p_weight := Some w2\<rparr>) True, r)"
    by (rule add_same_ports [OF mp found p1 p2 p3 lt])
  show "peers (fst (add dns t2 (fst (add dns t1 s hname prt tcp udp tr1 w1)) hname prt tcp udp tr2 w2))
           = peers s @ [new_ref (peers s)]"
    by (simp add: first second peers_after_update) (simp add: s1_def r_def)
  show "weight (heap (fst (add dns t2 (fst (add dns t1 s hname prt tcp udp tr1 w1)) hname prt tcp udp tr2 w2))
           (new_ref (peers s))) = w2"
    using weight_after_update [of s1 r w2] by (simp add: first second r_def)
  show "findByAddress dns (fst (add dns t2 (fst (add dns t1 s hname prt tcp udp tr1 w1)) hname prt tcp udp tr2 w2))
           hname (parseInt prt) = [new_ref (peers s)]"
    using found by (simp add: first second findByAddress_reweighted r_def)
qed

text \<open>
  C7 (amended). With \<open>multiPort\<close> off, adding a hostname whose first match has a lower
  stored weight raises that weight to the one supplied, and \<open>findByAddress\<close> afterwards
  gives the same peers, when the ports that \<open>add\<close> compares do not differ from the stored
  ones: \<open>parseInt(port)\<close> equals the stored port (so it is not \<open>NaN\<close>), and each of
  \<open>parseInt(TCPPort || 15600)\<close> and \<open>parseInt(UDPPort || 14600)\<close> is \<open>0\<close>, \<open>NaN\<close> or equal to
  the stored \<open>TCPPort\<close> and \<open>UDPPort\<close>. In particular two adds with the same arguments
  \<open>hostname\<close>, \<open>port\<close>, \<open>TCPPort\<close> and \<open>UDPPort\<close>, the port parsing, with weights \<open>w1 < w2\<close>
  (0.3 then 0.7) on a list where nothing matched the hostname yield one new peer, whose
  weight is \<open>w2\<close>.
\<close>

theorem add_raises_weight:
  "(\<not> multiPort s \<and> findByAddress dns s hname (parseInt prt) = e # rest \<and>
      \<not> strict_neq (parseInt prt) (port (heap s e)) \<and>
      \<not> (truthy_num (parse_or tcp DEFAULT_TCPPort) \<and>
           strict_neq (parse_or tcp DEFAULT_TCPPort) (TCPPort (heap s e))) \<and>
      \<not> (truthy_num (parse_or udp DEFAULT_UDPPort) \<and>
           strict_neq (parse_or udp DEFAULT_UDPPort) (UDPPort (heap s e))) \<and>
      weight (heap s e) < w \<longrightarrow>
        snd (add dns now s hname prt tcp udp trusted w) = e \<and>
        peers (fst (add dns now s hname prt tcp udp trusted w)) = peers s \<and>
        weight (heap (fst (add dns now s hname prt tcp udp trusted w)) e) = w \<and>
        findByAddress dns (fst (add dns now s hname prt tcp udp trusted w)) hname (parseInt prt) = e # rest) \<and>
   (\<not> multiPort s \<and> findByAddress dns s hname (parseInt prt) = [] \<and> parseInt prt \<noteq> None \<and> w1 < w2 \<longrightarrow>
        peers (fst (add dns t2 (fst (add dns t1 s hname prt tcp udp tr1 w1)) hname prt tcp udp tr2 w2))
          = peers s @ [new_ref (peers s)] \<and>
        weight (heap (fst (add dns t2 (fst (add dns t1 s hname prt tcp udp tr1 w1)) hname prt tcp udp tr2 w2))
          (new_ref (peers s))) = w2 \<and>
        findByAddress dns (fst (add dns t2 (fst (add dns t1 s hname prt tcp udp tr1 w1)) hname prt tcp udp tr2 w2))
          hname (parseInt prt) = [new_ref (peers s)])"
proof (intro conjI impI)
  assume a: "\<not> multiPort s \<and> findByAddress dns s hname (parseInt prt) = e # rest \<and>
      \<not> strict_neq (parseInt prt) (port (heap s e)) \<and>
      \<not> (truthy_num (parse_or tcp DEFAULT_TCPPort) \<and>
           strict_neq (parse_or tcp DEFAULT_TCPPort) (TCPPort (heap s e))) \<and>
      \<not> (truthy_num (parse_or udp DEFAULT_UDPPort) \<and>
           strict_neq (parse_or udp DEFAULT_UDPPort) (UDPPort (heap s e))) \<and>
      weight (heap s e) < w"
  then have eq: "add dns now s hname prt tcp udp trusted w =
           (update s e (no_patch\<lparr>p_weight := Some w\<rparr>) True, e)"
    by (intro add_same_ports) blast+
  show "snd (add dns now s hname prt tcp udp trusted w) = e" by (simp add: eq)
  show "peers (fst (add dns now s hname prt tcp udp trusted w)) = peers s"
    by (simp add: eq peers_after_update)
  show "weight (heap (fst (add dns now s hname prt tcp udp trusted w)) e) = w"
    by (simp add: eq weight_after_update)
  show "findByAddress dns (fst (add dns now s hname prt tcp udp trusted w)) hname (parseInt prt) = e # rest"
    using a by (simp add: eq findByAddress_reweighted)
next
  assume b: "\<not> multiPort s \<and> findByAddress dns s hname (parseInt prt) = [] \<and> parseInt prt \<noteq> None \<and> w1 < w2"
  then have b1: "\<not> multiPort s" and b2: "findByAddress dns s hname (parseInt prt) = []"
    and b3: "parseInt prt \<noteq> None" and b4: "w1 < w2" by blast+
  show "peers (fst (add dns t2 (fst (add dns t1 s hname prt tcp udp tr1 w1)) hname prt tcp udp tr2 w2))
          = peers s @ [new_ref (peers s)]"
    by (rule add_twice(1) [OF b1 b2 b3 b4])
  show "weight (heap (fst (add dns t2 (fst (add dns t1 s hname prt tcp udp tr1 w1)) hname prt tcp udp tr2 w2))
          (new_ref (peers s))) = w2"
    by (rule add_twice(2) [OF b1 b2 b3 b4])
  show "findByAddress dns (fst (add dns t2 (fst (add dns t1 s hname prt tcp udp tr1 w1)) hname prt tcp udp tr2 w2))
          hname (parseInt prt) = [new_ref (peers s)]"
    by (rule add_twice(3) [OF b1 b2 b3 b4])
qed

text \<open>
  C7 (amended) for two adds of \<open>a.example\<close>, port 1, \<open>TCPPort\<close> and \<open>UDPPort\<close> omitted, with
  weights 0.3 and 0.7, and for the second of them on the list that the first has left.
\<close>

theorem add_raises_weight_witness:
  "\<not> multiPort empty_list \<and>
   findByAddress no_dns empty_list ''a.example'' (parseInt (Str ''1'')) = [] \<and>
   parseInt (Str ''1'') \<noteq> None \<and> (3 / 10 :: real) < 7 / 10 \<and>
   peers (fst (add no_dns 6 (fst (add no_dns 5 empty_list ''a.example'' (Str ''1'') Undefined Undefined False (3 / 10)))
            ''a.example'' (Str ''1'') Undefined Undefined False (7 / 10)))
     = peers empty_list @ [new_ref (peers empty_list)] \<and>
   weight (heap (fst (add no_dns 6 (fst (add no_dns 5 empty_list ''a.example'' (Str ''1'') Undefined Undefined False (3 / 10)))
            ''a.example'' (Str ''1'') Undefined Undefined False (7 / 10))) (new_ref (peers empty_list))) = 7 / 10 \<and>
   findByAddress no_dns (fst (add no_dns 6 (fst (add no_dns 5 empty_list ''a.example'' (Str ''1'') Undefined Undefined False (3 / 10)))
            ''a.example'' (Str ''1'') Undefined Undefined False (7 / 10))) ''a.example'' (parseInt (Str ''1''))
     = [new_ref (peers empty_list)] \<and>
   \<not> multiPort one_peer \<and>
   findByAddress no_dns one_peer ''a.example'' (parseInt (Str ''1'')) = [1] \<and>
   \<not> strict_neq (parseInt (Str ''1'')) (port (heap one_peer 1)) \<and>
   \<not> (truthy_num (parse_or Undefined DEFAULT_TCPPort) \<and>
        strict_neq (parse_or Undefined DEFAULT_TCPPort) (TCPPort (heap one_peer 1))) \<and>
   \<not> (truthy_num (parse_or Undefined DEFAULT_UDPPort) \<and>
        strict_neq (parse_or Undefined DEFAULT_UDPPort) (UDPPort (heap one_peer 1))) \<and>
   weight (heap one_peer 1) < 7 / 10 \<and>
   snd (add no_dns 6 one_peer ''a.example'' (Str ''1'') Undefined Undefined False (7 / 10)) = 1 \<and>
   peers (fst (add no_dns 6 one_peer ''a.example'' (Str ''1'') Undefined Undefined False (7 / 10)))
     = peers one_peer \<and>
   weight (heap (fst (add no_dns 6 one_peer ''a.example'' (Str ''1'') Undefined Undefined False (7 / 10))) 1)
     = 7 / 10 \<and>
   findByAddress no_dns (fst (add no_dns 6 one_peer ''a.example'' (Str ''1'') Undefined Undefined False (7 / 10)))
     ''a.example'' (parseInt (Str ''1'')) = [1]"
proof -
  have a: "\<not> multiPort empty_list" by (simp add: empty_list_def new_list_def)
  have b: "findByAddress no_dns empty_list ''a.example'' (parseInt (Str ''1'')) = []" by code_simp
  have c: "parseInt (Str ''1'') \<noteq> None" by code_simp
  have d: "(3 / 10 :: real) < 7 / 10" by simp
  have a': "\<not> multiPort one_peer" by code_simp
  have b': "findByAddress no_dns one_peer ''a.example'' (parseInt (Str ''1'')) = [1]" by code_simp
  have c': "\<not> strict_neq (parseInt (Str ''1'')) (port (heap one_peer 1))" by code_simp
  have t': "\<not> (truthy_num (parse_or Undefined DEFAULT_TCPPort) \<and>
        strict_neq (parse_or Undefined DEFAULT_TCPPort) (TCPPort (heap one_peer 1)))" by code_simp
  have u': "\<not> (truthy_num (parse_or Undefined DEFAULT_UDPPort) \<and>
        strict_neq (parse_or Undefined DEFAULT_UDPPort) (UDPPort (heap one_peer 1)))" by code_simp
  have w': "weight (heap one_peer 1) < 7 / 10" by code_simp
  note first = add_raises_weight [of empty_list no_dns "''a.example''" "Str ''1''" 0 "[]" Undefined Undefined
        0 5 False "3 / 10" "7 / 10" 6 5 False False, THEN conjunct2, rule_format]
  note second = add_raises_weight [of one_peer no_dns "''a.example''" "Str ''1''" 1 "[]" Undefined Undefined
        "7 / 10" 6 False 0 0 0 0 False False, THEN conjunct1, rule_format]
  have p: "peers (fst (add no_dns 6 (fst (add no_dns 5 empty_list ''a.example'' (Str ''1'') Undefined Undefined False (3 / 10)))
            ''a.example'' (Str ''1'') Undefined Undefined False (7 / 10)))
     = peers empty_list @ [new_ref (peers empty_list)] \<and>
   weight (heap (fst (add no_dns 6 (fst (add no_dns 5 empty_list ''a.example'' (Str ''1'') Undefined Undefined False (3 / 10)))
            ''a.example'' (Str ''1'') Undefined Undefined False (7 / 10))) (new_ref (peers empty_list))) = 7 / 10 \<and>
   findByAddress no_dns (fst (add no_dns 6 (fst (add no_dns 5 empty_list ''a.example'' (Str ''1'') Undefined Undefined False (3 / 10)))
            ''a.example'' (Str ''1'') Undefined Undefined False (7 / 10))) ''a.example'' (parseInt (Str ''1''))
     = [new_ref (peers empty_list)]"
    using a b c d by (intro first) blast
  have q: "snd (add no_dns 6 one_peer ''a.example'' (Str ''1'') Undefined Undefined False (7 / 10)) = 1 \<and>
   peers (fst (add no_dns 6 one_peer ''a.example'' (Str ''1'') Undefined Undefined False (7 / 10)))
     = peers one_peer \<and>
   weight (heap (fst (add no_dns 6 one_peer ''a.example'' (Str ''1'') Undefined Undefined False (7 / 10))) 1)
     = 7 / 10 \<and>
   findByAddress no_dns (fst (add no_dns 6 one_peer ''a.example'' (Str ''1'') Undefined Undefined False (7 / 10)))
     ''a.example'' (parseInt (Str ''1'')) = [1]"
    using a' b' c' t' u' w' by (intro second) blast
  show ?thesis
    using a b c d p a' b' c' t' u' w' q by blast
qed

text \<open>
  C7 as stated fails: after two adds of \<open>a.example\<close> with weights 0.3 and 0.7, the second
  with another port, the single peer has the new port and still the weight 0.3.
\<close>

theorem add_weight_not_raised_counterexample:
  "peers (fst (add no_dns 6 (fst (add no_dns 5 empty_list ''a.example'' (Str ''1'') Undefined Undefined False (3 / 10)))
             ''a.example'' (Str ''2'') Undefined Undefined False (7 / 10))) = [1] \<and>
   weight (heap (fst (add no_dns 6 (fst (add no_dns 5 empty_list ''a.example'' (Str ''1'') Undefined Undefined False (3 / 10)))
             ''a.example'' (Str ''2'') Undefined Undefined False (7 / 10))) 1) = 3 / 10 \<and>
   port (heap (fst (add no_dns 6 (fst (add no_dns 5 empty_list ''a.example'' (Str ''1'') Undefined Undefined False (3 / 10)))
             ''a.example'' (Str ''2'') Undefined Undefined False (7 / 10))) 1) = Some 2"
  by code_simp

end
